theory Spec2Isabelle
  imports Complex_Main "HOL-Library.AList"
begin

section \<open>Hermes bridge: policy gate, sessions, outbox, CLI protocol\<close>

text \<open>
  A shallow embedding of \<^verbatim>\<open>src/bridge/hermes_bridge.py\<close>. Module globals
  (\<^verbatim>\<open>_policy\<close>, \<^verbatim>\<open>_rate_counts\<close>, the Postgres tables) are passed explicitly;
  what the module reads from its environment (the clock, the local hour, the outcome of a
  subprocess or of an HTTP POST, whether a storage statement raises) is an argument of the
  function that reads it. Timestamps (\<^verbatim>\<open>time.time()\<close>) are seconds as \<open>real\<close>.
\<close>

subsection \<open>Python values used by the module\<close>

datatype py_exn =
    ValueError | TypeError | AttributeError | KeyError | JSONDecodeError
  | UnicodeDecodeError | OSError | TimeoutError | DatabaseError | IntegrityError

text \<open>
  Whitespace as \<^verbatim>\<open>str.strip()\<close> and \<^verbatim>\<open>int()\<close> see it, for code points below 256:
  TAB, LF, VT, FF, CR, FS, GS, RS, US, space, NEL and NBSP.
\<close>

definition py_space :: "char \<Rightarrow> bool" where
  "py_space c = (of_char c \<in> {9, 10, 11, 12, 13, 28, 29, 30, 31, 32, 133, 160 :: nat})"

definition py_strip :: "string \<Rightarrow> string" where
  "py_strip s = rev (dropWhile py_space (rev (dropWhile py_space s)))"

definition is_digit :: "char \<Rightarrow> bool" where
  "is_digit c = (48 \<le> (of_char c :: nat) \<and> (of_char c :: nat) \<le> 57)"

definition digit_val :: "char \<Rightarrow> int" where
  "digit_val c = int (of_char c) - 48"

text \<open>
  The digit part of an integer literal given to \<^verbatim>\<open>int()\<close>: groups of decimal
  digits separated by single underscores, at most 4300 digits (the interpreter's default
  limit on integer string conversion).
\<close>

fun no_double_underscore :: "string \<Rightarrow> bool" where
  "no_double_underscore (a # b # s) =
     (\<not> (a = CHR ''_'' \<and> b = CHR ''_'') \<and> no_double_underscore (b # s))"
| "no_double_underscore s = True"

definition py_digits :: "string \<Rightarrow> int option" where
  "py_digits s =
     (if s \<noteq> [] \<and> list_all (\<lambda>c. is_digit c \<or> c = CHR ''_'') s
         \<and> hd s \<noteq> CHR ''_'' \<and> last s \<noteq> CHR ''_'' \<and> no_double_underscore s
         \<and> length (filter is_digit s) \<le> 4300
      then Some (foldl (\<lambda>n c. 10 * n + digit_val c) 0 (filter is_digit s))
      else None)"

text \<open>\<^verbatim>\<open>int(s)\<close> on a string: \<open>None\<close> stands for the \<^verbatim>\<open>ValueError\<close> it raises.\<close>

definition py_int :: "string \<Rightarrow> int option" where
  "py_int s =
     (case py_strip s of
        [] \<Rightarrow> None
      | c # r \<Rightarrow>
          if c = CHR ''-'' then map_option uminus (py_digits r)
          else if c = CHR ''+'' then py_digits r
          else py_digits (c # r))"

subsection \<open>Policy document\<close>

text \<open>
  One entry of \<^verbatim>\<open>per_agent\<close>. A field is \<open>None\<close> when the key is absent from the
  entry, so that each \<^verbatim>\<open>.get(key, default)\<close> of the source supplies its own default.
\<close>

record agent_limits =
  calls_per_hour :: "int option"
  priority_levels :: "string list option"
  quiet_hours_exempt :: "bool option"

record policy =
  per_agent :: "string \<rightharpoonup> agent_limits"
  global_calls_per_hour :: "int option"
  quiet_start :: "string option"
  quiet_end :: "string option"
  event_webhooks :: "string \<rightharpoonup> string"
  log_to_jsonl :: "bool option"
  jsonl_path :: "string option"

text \<open>
  \<^verbatim>\<open>get_agent_limits\<close>: the caller's entry, or the restrictive default (5 calls an hour,
  priorities low and normal, no exemption key) for a caller the policy does not name.
\<close>

definition default_limits :: agent_limits where
  "default_limits =
     \<lparr>calls_per_hour = Some 5, priority_levels = Some [''low'', ''normal''],
      quiet_hours_exempt = None\<rparr>"

definition get_agent_limits :: "policy \<Rightarrow> string \<Rightarrow> agent_limits" where
  "get_agent_limits pol caller_id =
     (case per_agent pol caller_id of None \<Rightarrow> default_limits | Some l \<Rightarrow> l)"

text \<open>\<^verbatim>\<open>agent_limits.get("calls_per_hour", 5)\<close> and the global \<^verbatim>\<open>.get("calls_per_hour", 60)\<close>.\<close>

definition agent_limit :: "policy \<Rightarrow> string \<Rightarrow> int" where
  "agent_limit pol caller_id =
     (case calls_per_hour (get_agent_limits pol caller_id) of None \<Rightarrow> 5 | Some n \<Rightarrow> n)"

definition global_limit :: "policy \<Rightarrow> int" where
  "global_limit pol = (case global_calls_per_hour pol of None \<Rightarrow> 60 | Some n \<Rightarrow> n)"

subsection \<open>Rate limiter\<close>

text \<open>
  \<^verbatim>\<open>_rate_counts\<close> is a \<^verbatim>\<open>defaultdict(list)\<close>: an association list from caller to
  the timestamps recorded for it, in insertion order. Reading a missing key yields the
  empty list; both \<^verbatim>\<open>_prune\<close> and \<^verbatim>\<open>record_call\<close> store the key.
\<close>

type_synonym rate_counts = "(string \<times> real list) list"

definition rc_get :: "rate_counts \<Rightarrow> string \<Rightarrow> real list" where
  "rc_get rc caller_id = (case map_of rc caller_id of None \<Rightarrow> [] | Some ts \<Rightarrow> ts)"

definition prune :: "rate_counts \<Rightarrow> string \<Rightarrow> real \<Rightarrow> rate_counts" where
  "prune rc caller_id now =
     AList.update caller_id (filter (\<lambda>t. t > now - 3600) (rc_get rc caller_id)) rc"

definition total_calls :: "rate_counts \<Rightarrow> nat" where
  "total_calls rc = sum_list (map (\<lambda>kv. length (snd kv)) rc)"

text \<open>
  The reasons \<^verbatim>\<open>enforce_policy\<close> can return, one constructor per message:
  \<^item> \<open>QuietHoursActive\<close>: \<^verbatim>\<open>"Quiet hours active. Only priority='critical' allowed."\<close>
  \<^item> \<open>GlobalRateLimit n\<close>: \<^verbatim>\<open>"Global rate limit ({n}/hr) exceeded"\<close>
  \<^item> \<open>AgentRateLimit c n\<close>: \<^verbatim>\<open>"Agent '{c}' rate limit ({n}/hr) exceeded"\<close>
  \<^item> \<open>PriorityNotAllowed c p ps\<close>: \<^verbatim>\<open>"Agent '{c}' not allowed priority '{p}' (allowed: {ps})"\<close>
\<close>

datatype denial =
    QuietHoursActive
  | GlobalRateLimit int
  | AgentRateLimit string int
  | PriorityNotAllowed string string "string list"

definition check_rate_limit ::
  "policy \<Rightarrow> rate_counts \<Rightarrow> string \<Rightarrow> real \<Rightarrow> denial option \<times> rate_counts" where
  "check_rate_limit pol rc caller_id now =
     (let rc' = prune rc caller_id now in
      if int (total_calls rc') \<ge> global_limit pol
        then (Some (GlobalRateLimit (global_limit pol)), rc')
      else if int (length (rc_get rc' caller_id)) \<ge> agent_limit pol caller_id
        then (Some (AgentRateLimit caller_id (agent_limit pol caller_id)), rc')
      else (None, rc'))"

definition record_call :: "rate_counts \<Rightarrow> string \<Rightarrow> real \<Rightarrow> rate_counts" where
  "record_call rc caller_id now = AList.update caller_id (rc_get rc caller_id @ [now]) rc"

subsection \<open>Quiet hours\<close>

text \<open>
  \<^verbatim>\<open>is_quiet_hours\<close>: \<open>hour\<close> is \<^verbatim>\<open>now.hour\<close> in the configured time zone. The
  window bounds are \<^verbatim>\<open>int(s.split(":")[0])\<close> of the configured strings, which raises
  \<^verbatim>\<open>ValueError\<close> when the text before the first colon is not an integer literal.
\<close>

definition hour_field :: "string \<Rightarrow> int option" where
  "hour_field s = py_int (takeWhile (\<lambda>c. c \<noteq> CHR '':'') s)"

definition is_quiet_hours :: "policy \<Rightarrow> int \<Rightarrow> py_exn + bool" where
  "is_quiet_hours pol hour =
     (case hour_field (case quiet_start pol of None \<Rightarrow> ''23:00'' | Some s \<Rightarrow> s) of
        None \<Rightarrow> Inl ValueError
      | Some start \<Rightarrow>
         (case hour_field (case quiet_end pol of None \<Rightarrow> ''08:00'' | Some s \<Rightarrow> s) of
            None \<Rightarrow> Inl ValueError
          | Some end \<Rightarrow>
              Inr (if start > end then hour \<ge> start \<or> hour < end
                   else start \<le> hour \<and> hour < end)))"

subsection \<open>Policy enforcement\<close>

text \<open>
  \<^verbatim>\<open>enforce_policy\<close>: quiet hours, then rate limit, then the priority whitelist, the
  first denial winning (the \<^verbatim>\<open>endpoint\<close> argument of the source is not used by it). The result is \<open>Inr None\<close> when the call is allowed, \<open>Inr (Some d)\<close>
  when it is denied and \<open>Inl e\<close> when the quiet-hours configuration makes the check raise.
  The rate counters come back pruned when the rate limit was consulted.
\<close>

definition exempt_flag :: "policy \<Rightarrow> string \<Rightarrow> bool" where
  "exempt_flag pol caller_id =
     (case quiet_hours_exempt (get_agent_limits pol caller_id) of None \<Rightarrow> False | Some b \<Rightarrow> b)"

definition is_exempt :: "policy \<Rightarrow> string \<Rightarrow> bool" where
  "is_exempt pol caller_id = (exempt_flag pol caller_id \<or> caller_id = ''dashboard'')"

definition allowed_priorities :: "policy \<Rightarrow> string \<Rightarrow> string list" where
  "allowed_priorities pol caller_id =
     (case priority_levels (get_agent_limits pol caller_id) of
        None \<Rightarrow> [''low'', ''normal''] | Some ps \<Rightarrow> ps)"

definition enforce_policy ::
  "policy \<Rightarrow> rate_counts \<Rightarrow> string \<Rightarrow> string \<Rightarrow> int \<Rightarrow> real
     \<Rightarrow> (py_exn + denial option) \<times> rate_counts" where
  "enforce_policy pol rc caller_id priority hour now =
     (case is_quiet_hours pol hour of
        Inl e \<Rightarrow> (Inl e, rc)
      | Inr quiet \<Rightarrow>
          if quiet \<and> priority \<noteq> ''critical'' \<and> \<not> is_exempt pol caller_id
            then (Inr (Some QuietHoursActive), rc)
          else
            (case check_rate_limit pol rc caller_id now of
               (Some reason, rc') \<Rightarrow> (Inr (Some reason), rc')
             | (None, rc') \<Rightarrow>
                 if priority \<notin> set (allowed_priorities pol caller_id)
                   then (Inr (Some (PriorityNotAllowed caller_id priority
                                      (allowed_priorities pol caller_id))), rc')
                 else (Inr None, rc')))"

text \<open>
  What every mediated endpoint does first: evaluate the gate and, only when it allows the
  call, \<^verbatim>\<open>record_call\<close>. The two clock readings are \<open>t_gate\<close> (inside \<^verbatim>\<open>_prune\<close>) and
  \<open>t_record\<close> (inside \<^verbatim>\<open>record_call\<close>); nothing is awaited between them.
\<close>

record call =
  caller :: string
  priority :: string
  hour_at :: int
  t_gate :: real
  t_record :: real

datatype outcome = Accepted | Denied denial | Raised py_exn

definition gate_call :: "policy \<Rightarrow> rate_counts \<Rightarrow> call \<Rightarrow> outcome \<times> rate_counts" where
  "gate_call pol rc c =
     (case enforce_policy pol rc (caller c) (priority c) (hour_at c) (t_gate c) of
        (Inl e, rc') \<Rightarrow> (Raised e, rc')
      | (Inr (Some d), rc') \<Rightarrow> (Denied d, rc')
      | (Inr None, rc') \<Rightarrow> (Accepted, record_call rc' (caller c) (t_record c)))"

fun serve :: "policy \<Rightarrow> rate_counts \<Rightarrow> call list \<Rightarrow> (call \<times> outcome) list" where
  "serve pol rc [] = []"
| "serve pol rc (c # cs) = (c, fst (gate_call pol rc c)) # serve pol (snd (gate_call pol rc c)) cs"

text \<open>The accepted calls of a run, each with the timestamp recorded for it.\<close>

definition accepted :: "(call \<times> outcome) list \<Rightarrow> (string \<times> real) list" where
  "accepted run = map (\<lambda>(c, out). (caller c, t_record c)) (filter (\<lambda>(c, out). out = Accepted) run)"

text \<open>The clock does not run backwards over a run that starts at time \<open>t0\<close>.\<close>

fun well_timed :: "real \<Rightarrow> call list \<Rightarrow> bool" where
  "well_timed t0 [] = True"
| "well_timed t0 (c # cs) = (t0 \<le> t_gate c \<and> t_gate c \<le> t_record c \<and> well_timed (t_record c) cs)"

text \<open>Entries of a list of accepted calls that fall in the trailing hour ending at \<open>T\<close>.\<close>

definition in_window :: "real \<Rightarrow> real \<Rightarrow> bool" where
  "in_window T t = (T - 3600 < t \<and> t \<le> T)"

definition calls_in_window :: "(string \<times> real) list \<Rightarrow> real \<Rightarrow> nat" where
  "calls_in_window acc T = length (filter (\<lambda>(c, t). in_window T t) acc)"

definition caller_calls_in_window :: "(string \<times> real) list \<Rightarrow> string \<Rightarrow> real \<Rightarrow> nat" where
  "caller_calls_in_window acc caller_id T =
     length (filter (\<lambda>(c, t). c = caller_id \<and> in_window T t) acc)"







subsection \<open>Scenario configurations\<close>

definition base_policy :: policy where
  "base_policy =
     \<lparr>per_agent = Map.empty, global_calls_per_hour = None, quiet_start = None,
      quiet_end = None, event_webhooks = Map.empty, log_to_jsonl = None, jsonl_path = None\<rparr>"

text \<open>Caller \<open>c1\<close> with a ceiling of five calls an hour; everything else at its default.\<close>

definition five_per_hour_policy :: policy where
  "five_per_hour_policy =
     base_policy\<lparr>per_agent :=
       [''c1'' \<mapsto> \<lparr>calls_per_hour = Some 5, priority_levels = None, quiet_hours_exempt = None\<rparr>]\<rparr>"

definition c1_call :: "real \<Rightarrow> call" where
  "c1_call t = \<lparr>caller = ''c1'', priority = ''normal'', hour_at = 12, t_gate = t, t_record = t\<rparr>"



subsection \<open>Exceptions and the durable store\<close>

text \<open>
  A computation over a state that either returns a value or raises. \<open>try_except m h\<close> is
  \<^verbatim>\<open>try: m  except Exception as e: h(e)\<close>; the state reached when \<open>m\<close> raised is kept.
\<close>

type_synonym ('s, 'a) ex = "'s \<Rightarrow> (py_exn + 'a) \<times> 's"

definition ex_return :: "'a \<Rightarrow> ('s, 'a) ex" where
  "ex_return x = (\<lambda>s. (Inr x, s))"

definition ex_raise :: "py_exn \<Rightarrow> ('s, 'a) ex" where
  "ex_raise e = (\<lambda>s. (Inl e, s))"

definition ex_bind :: "('s, 'a) ex \<Rightarrow> ('a \<Rightarrow> ('s, 'b) ex) \<Rightarrow> ('s, 'b) ex" where
  "ex_bind m f = (\<lambda>s. case m s of (Inl e, s') \<Rightarrow> (Inl e, s') | (Inr x, s') \<Rightarrow> f x s')"

definition try_except :: "('s, 'a) ex \<Rightarrow> (py_exn \<Rightarrow> ('s, 'a) ex) \<Rightarrow> ('s, 'a) ex" where
  "try_except m h = (\<lambda>s. case m s of (Inl e, s') \<Rightarrow> h e s' | (Inr x, s') \<Rightarrow> (Inr x, s'))"

text \<open>JSON values as \<^verbatim>\<open>json.loads\<close> returns them; an object keeps its items in order.\<close>

datatype json =
    JNull | JBool bool | JInt int | JFloat real | JStr string
  | JArr "json list" | JObj "(string \<times> json) list"

text \<open>The three tables of \<^verbatim>\<open>init_pg_tables\<close>, with the columns the module writes.\<close>

record session_row =
  sid :: string
  s_caller :: string
  s_target :: string
  s_type :: string
  claude_session_id :: "string option"
  message_count :: int
  last_used :: real

record audit_row =
  a_caller :: string
  a_endpoint :: string
  a_target :: "string option"
  a_priority :: string
  a_request :: "string option"
  a_response :: "string option"
  a_latency_ms :: "real option"
  a_cost_usd :: real
  a_success :: bool
  a_error :: "string option"
  a_metadata :: json

record outbox_event =
  ev_id :: nat
  event_type :: string
  source :: string
  payload :: json
  webhook_url :: string
  status :: string
  attempts :: int
  last_error :: "string option"
  created_at :: real
  delivered_at :: "real option"

record tables =
  sessions :: "session_row list"
  audit_rows :: "audit_row list"
  outbox :: "outbox_event list"

text \<open>
  The world a call runs in. The connection has \<^verbatim>\<open>autocommit = False\<close>: statements
  change \<open>working\<close>, \<^verbatim>\<open>commit\<close> copies it to \<open>durable\<close>, \<^verbatim>\<open>rollback\<close> resets it.
  The environment is scripted: \<open>pg_up\<close> gives the results of the coming \<^verbatim>\<open>get_pg()\<close>
  calls (\<open>False\<close> for \<^verbatim>\<open>None\<close>), \<open>db_faults\<close> says for each coming storage statement
  whether it raises, \<open>fs_faults\<close> the same for file operations; an exhausted script means
  no further failure. \<open>proc_ops\<close> lists what was done to subprocesses.
\<close>

datatype proc_op = Spawn "string list" | Communicate int | Kill | Terminate

record world =
  durable :: tables
  working :: tables
  event_seq :: nat
  pg_up :: "bool list"
  db_faults :: "bool list"
  fs_faults :: "bool list"
  jsonl_file :: "audit_row list"
  log_lines :: "string list"
  proc_ops :: "proc_op list"

definition get_pg :: "(world, bool) ex" where
  "get_pg w = (case pg_up w of [] \<Rightarrow> (Inr True, w) | b # bs \<Rightarrow> (Inr b, w\<lparr>pg_up := bs\<rparr>))"

definition pg_execute :: "(tables \<Rightarrow> py_exn + 'a \<times> tables) \<Rightarrow> (world, 'a) ex" where
  "pg_execute q w =
     (case db_faults w of
        True # fs \<Rightarrow> (Inl DatabaseError, w\<lparr>db_faults := fs\<rparr>)
      | _ \<Rightarrow>
         (case q (working w) of
            Inl e \<Rightarrow> (Inl e, w\<lparr>db_faults := tl (db_faults w)\<rparr>)
          | Inr (x, t) \<Rightarrow> (Inr x, w\<lparr>working := t, db_faults := tl (db_faults w)\<rparr>)))"

definition pg_commit :: "(world, unit) ex" where
  "pg_commit w =
     (case db_faults w of
        True # fs \<Rightarrow> (Inl DatabaseError, w\<lparr>db_faults := fs\<rparr>)
      | _ \<Rightarrow> (Inr (), w\<lparr>durable := working w, db_faults := tl (db_faults w)\<rparr>))"

definition pg_rollback :: "(world, unit) ex" where
  "pg_rollback w =
     (case db_faults w of
        True # fs \<Rightarrow> (Inl DatabaseError, w\<lparr>working := durable w, db_faults := fs\<rparr>)
      | _ \<Rightarrow> (Inr (), w\<lparr>working := durable w, db_faults := tl (db_faults w)\<rparr>))"

text \<open>\<^verbatim>\<open>try: conn.rollback()  except Exception: pass\<close>\<close>

definition rollback_quietly :: "(world, unit) ex" where
  "rollback_quietly = try_except pg_rollback (\<lambda>e. ex_return ())"

definition log_line :: "string \<Rightarrow> (world, unit) ex" where
  "log_line msg w = (Inr (), w\<lparr>log_lines := log_lines w @ [msg]\<rparr>)"

text \<open>Appending one line to the JSONL backup: \<^verbatim>\<open>makedirs\<close>, \<^verbatim>\<open>open(path, "a")\<close>, \<^verbatim>\<open>write\<close>.\<close>

definition fs_append :: "audit_row \<Rightarrow> (world, unit) ex" where
  "fs_append entry w =
     (case fs_faults w of
        True # fs \<Rightarrow> (Inl OSError, w\<lparr>fs_faults := fs\<rparr>)
      | _ \<Rightarrow> (Inr (), w\<lparr>jsonl_file := jsonl_file w @ [entry], fs_faults := tl (fs_faults w)\<rparr>))"

subsection \<open>Audit ledger\<close>

text \<open>\<^verbatim>\<open>s[:n] if s else None\<close> on an optional string.\<close>

definition summary :: "nat \<Rightarrow> string option \<Rightarrow> string option" where
  "summary n s = (case s of None \<Rightarrow> None | Some t \<Rightarrow> if t = [] then None else Some (take n t))"

definition insert_audit :: "audit_row \<Rightarrow> tables \<Rightarrow> py_exn + unit \<times> tables" where
  "insert_audit r t = Inr ((), t\<lparr>audit_rows := audit_rows t @ [r]\<rparr>)"

text \<open>
  \<^verbatim>\<open>audit_log\<close>: the Postgres write inside its own \<^verbatim>\<open>try\<close>, then the JSONL backup
  inside its own \<^verbatim>\<open>try\<close> when the policy does not switch it off. The row carries the
  arguments; the summaries are cut to 500 characters for Postgres and 200 for the file.
\<close>

definition audit_log :: "policy \<Rightarrow> audit_row \<Rightarrow> (world, unit) ex" where
  "audit_log pol r =
     ex_bind get_pg (\<lambda>conn.
     ex_bind
       (if conn then
          try_except
            (ex_bind (pg_execute (insert_audit
                        (r\<lparr>a_request := summary 500 (a_request r),
                           a_response := summary 500 (a_response r)\<rparr>)))
               (\<lambda>_. pg_commit))
            (\<lambda>e. ex_bind rollback_quietly
               (\<lambda>_. log_line ''Audit log Postgres write failed''))
        else ex_return ())
       (\<lambda>_.
          if (case log_to_jsonl pol of None \<Rightarrow> True | Some b \<Rightarrow> b) then
            try_except
              (fs_append (r\<lparr>a_request := summary 200 (a_request r),
                            a_response := summary 200 (a_response r), a_metadata := JNull\<rparr>))
              (\<lambda>e. log_line ''JSONL audit write failed'')
          else ex_return ()))"

subsection \<open>Event outbox\<close>

definition insert_event :: "outbox_event \<Rightarrow> tables \<Rightarrow> py_exn + unit \<times> tables" where
  "insert_event r t = Inr ((), t\<lparr>outbox := outbox t @ [r]\<rparr>)"

definition webhook_path :: "policy \<Rightarrow> string \<Rightarrow> string" where
  "webhook_path pol ev_type =
     (case event_webhooks pol ev_type of
        Some p \<Rightarrow> p
      | None \<Rightarrow> (case event_webhooks pol ''_default'' of
                   Some p \<Rightarrow> p | None \<Rightarrow> ''/webhook/hermes-events''))"

text \<open>
  The row \<^verbatim>\<open>INSERT INTO hermes_event_outbox\<close> creates: the next value of the serial
  sequence, the column defaults (\<open>pending\<close>, no attempts), \<^verbatim>\<open>NOW()\<close> as creation time.
\<close>

definition new_event :: "nat \<Rightarrow> real \<Rightarrow> string \<Rightarrow> string \<Rightarrow> json \<Rightarrow> string \<Rightarrow> outbox_event" where
  "new_event i now ev_type src pl url =
     \<lparr>ev_id = i, event_type = ev_type, source = src, payload = pl, webhook_url = url,
      status = ''pending'', attempts = 0, last_error = None, created_at = now,
      delivered_at = None\<rparr>"

text \<open>A serial sequence advances even when the inserting transaction is rolled back.\<close>

definition next_serial :: "(world, nat) ex" where
  "next_serial w = (Inr (Suc (event_seq w)), w\<lparr>event_seq := Suc (event_seq w)\<rparr>)"

text \<open>
  \<^verbatim>\<open>emit_event\<close>: \<open>n8n_base\<close> is \<^verbatim>\<open>N8N_BASE\<close>, \<open>now\<close> the time of the insert,
  \<open>pl\<close> the optional payload (\<^verbatim>\<open>payload or {}\<close>).
\<close>

definition emit_event ::
  "policy \<Rightarrow> string \<Rightarrow> real \<Rightarrow> string \<Rightarrow> string \<Rightarrow> json option \<Rightarrow> (world, unit) ex" where
  "emit_event pol n8n_base now ev_type src pl =
     ex_bind get_pg (\<lambda>conn.
       if \<not> conn then log_line ''Cannot emit event (Postgres down)''
       else
         try_except
           (ex_bind next_serial (\<lambda>i.
            ex_bind (pg_execute (insert_event
                       (new_event i now ev_type src
                          (case pl of None \<Rightarrow> JObj [] | Some v \<Rightarrow> if v = JObj [] then JObj [] else v)
                          (n8n_base @ webhook_path pol ev_type))))
              (\<lambda>_. pg_commit)))
           (\<lambda>e. ex_bind rollback_quietly (\<lambda>_. log_line ''Event emit failed'')))"

subsection \<open>Outbox drain worker\<close>














subsection \<open>Session tracker\<close>

definition select_session :: "string \<Rightarrow> tables \<Rightarrow> py_exn + session_row option \<times> tables" where
  "select_session i t = Inr (find (\<lambda>r. sid r = i) (sessions t), t)"

definition touch_session :: "string \<Rightarrow> real \<Rightarrow> tables \<Rightarrow> py_exn + unit \<times> tables" where
  "touch_session i now t =
     Inr ((), t\<lparr>sessions :=
                 map (\<lambda>r. if sid r = i
                           then r\<lparr>last_used := now, message_count := message_count r + 1\<rparr>
                           else r) (sessions t)\<rparr>)"

text \<open>\<open>id\<close> is the primary key: inserting an id that is present raises.\<close>

definition insert_session :: "session_row \<Rightarrow> tables \<Rightarrow> py_exn + unit \<times> tables" where
  "insert_session r t =
     (if list_ex (\<lambda>x. sid x = sid r) (sessions t) then Inl IntegrityError
      else Inr ((), t\<lparr>sessions := sessions t @ [r]\<rparr>))"

text \<open>\<^verbatim>\<open>SELECT claude_session_id ... WHERE id = %s\<close>: no row, or the row's nullable handle.\<close>

definition select_handle :: "string \<Rightarrow> tables \<Rightarrow> py_exn + string option option \<times> tables" where
  "select_handle i t =
     Inr (map_option claude_session_id (find (\<lambda>r. sid r = i) (sessions t)), t)"

definition set_handle :: "string \<Rightarrow> string \<Rightarrow> tables \<Rightarrow> py_exn + unit \<times> tables" where
  "set_handle i h t =
     Inr ((), t\<lparr>sessions :=
                 map (\<lambda>r. if sid r = i then r\<lparr>claude_session_id := Some h\<rparr> else r)
                   (sessions t)\<rparr>)"

text \<open>
  The row \<^verbatim>\<open>INSERT INTO hermes_sessions\<close> creates: the handle is minted here, and only
  for session type \<open>claude\<close>.
\<close>

definition new_session :: "string \<Rightarrow> string \<Rightarrow> string \<Rightarrow> string \<Rightarrow> string \<Rightarrow> real \<Rightarrow> session_row" where
  "new_session key caller_id target session_type fresh now =
     \<lparr>sid = key, s_caller = caller_id, s_target = target, s_type = session_type,
      claude_session_id = (if session_type = ''claude'' then Some fresh else None),
      message_count = 0, last_used = now\<rparr>"

text \<open>
  \<^verbatim>\<open>get_or_create_session\<close> in its two storage phases: the \<^verbatim>\<open>SELECT\<close> that decides
  whether the session exists, and what follows from its answer (\<^verbatim>\<open>UPDATE\<close> or
  \<^verbatim>\<open>INSERT\<close>, \<^verbatim>\<open>commit\<close>, the closing \<^verbatim>\<open>SELECT\<close>). \<open>fresh\<close> is the token
  \<^verbatim>\<open>uuid.uuid4()\<close> yields when it is called, \<open>now\<close> is \<^verbatim>\<open>NOW()\<close>.
\<close>

definition resolve_read :: "string \<Rightarrow> (world, session_row option) ex" where
  "resolve_read session_id = pg_execute (select_session session_id)"

definition resolve_write ::
  "string \<Rightarrow> string \<Rightarrow> string \<Rightarrow> string \<Rightarrow> string \<Rightarrow> real \<Rightarrow> session_row option
     \<Rightarrow> (world, string) ex" where
  "resolve_write session_id caller_id target session_type fresh now row =
     ex_bind
       (if row \<noteq> None then pg_execute (touch_session session_id now)
        else pg_execute (insert_session
               (new_session session_id caller_id target session_type fresh now)))
       (\<lambda>_. ex_bind pg_commit
          (\<lambda>_. ex_bind (pg_execute (select_handle session_id))
             (\<lambda>_. ex_return session_id)))"

text \<open>The \<^verbatim>\<open>except Exception\<close> branch: roll back, log, return the id all the same.\<close>

definition resolve_failed :: "string \<Rightarrow> py_exn \<Rightarrow> (world, string) ex" where
  "resolve_failed session_id e =
     ex_bind rollback_quietly
       (\<lambda>_. ex_bind (log_line ''Session management error'') (\<lambda>_. ex_return session_id))"

definition get_or_create_session ::
  "string \<Rightarrow> string \<Rightarrow> string \<Rightarrow> string \<Rightarrow> string \<Rightarrow> real \<Rightarrow> (world, string) ex" where
  "get_or_create_session caller_id target session_type purpose fresh now =
     (let session_id = ''hermes-'' @ caller_id @ ''-'' @ target @ ''-'' @ purpose in
      ex_bind get_pg (\<lambda>conn.
        if \<not> conn then ex_return session_id
        else
          try_except
            (ex_bind (resolve_read session_id)
               (resolve_write session_id caller_id target session_type fresh now))
            (resolve_failed session_id)))"

definition get_claude_session_id :: "string \<Rightarrow> (world, string option) ex" where
  "get_claude_session_id hermes_session_id =
     ex_bind get_pg (\<lambda>conn.
       if \<not> conn then ex_return None
       else
         try_except
           (ex_bind (pg_execute (select_handle hermes_session_id))
              (\<lambda>row. ex_return (case row of None \<Rightarrow> None | Some h \<Rightarrow> h)))
           (\<lambda>e. ex_return None))"


subsection \<open>CLI invocation protocol\<close>

text \<open>Python on parsed JSON: truthiness, \<^verbatim>\<open>dict.get\<close>, iteration, \<^verbatim>\<open>"\n".join\<close>.\<close>

fun truthy :: "json \<Rightarrow> bool" where
  "truthy JNull = False"
| "truthy (JBool b) = b"
| "truthy (JInt n) = (n \<noteq> 0)"
| "truthy (JFloat x) = (x \<noteq> 0)"
| "truthy (JStr s) = (s \<noteq> [])"
| "truthy (JArr xs) = (xs \<noteq> [])"
| "truthy (JObj kv) = (kv \<noteq> [])"

definition dict_get :: "(string \<times> json) list \<Rightarrow> string \<Rightarrow> json \<Rightarrow> json" where
  "dict_get kv k d = (case map_of kv k of None \<Rightarrow> d | Some v \<Rightarrow> v)"

definition py_iter :: "json \<Rightarrow> py_exn + json list" where
  "py_iter v =
     (case v of
        JArr xs \<Rightarrow> Inr xs
      | JObj kv \<Rightarrow> Inr (map (\<lambda>p. JStr (fst p)) kv)
      | JStr s \<Rightarrow> Inr (map (\<lambda>c. JStr [c]) s)
      | _ \<Rightarrow> Inl TypeError)"

definition NL :: char where
  "NL = CHR 0x0A"

fun join_with :: "string \<Rightarrow> string list \<Rightarrow> string" where
  "join_with sep [] = []"
| "join_with sep [x] = x"
| "join_with sep (x # y # ys) = x @ sep @ join_with sep (y # ys)"

fun str_items :: "json list \<Rightarrow> string list option" where
  "str_items [] = Some []"
| "str_items (JStr s # vs) = map_option (\<lambda>ss. s # ss) (str_items vs)"
| "str_items (v # vs) = None"

definition py_join :: "string \<Rightarrow> json list \<Rightarrow> py_exn + string" where
  "py_join sep vs = (case str_items vs of None \<Rightarrow> Inl TypeError | Some ss \<Rightarrow> Inr (join_with sep ss))"

text \<open>
  \<^verbatim>\<open>str(v)\<close>: a string is itself; for any other value the text is what the interpreter's
  \<open>repr\<close> gives, taken as a parameter.
\<close>

definition py_str :: "(json \<Rightarrow> string) \<Rightarrow> json \<Rightarrow> string" where
  "py_str repr v = (case v of JStr s \<Rightarrow> s | _ \<Rightarrow> repr v)"

text \<open>\<^verbatim>\<open>s.find(pat)\<close>: the lowest index where \<open>pat\<close> starts, \<open>None\<close> for \<open>-1\<close>.\<close>

fun find_sub :: "string \<Rightarrow> string \<Rightarrow> nat option" where
  "find_sub pat [] = (if pat = [] then Some 0 else None)"
| "find_sub pat (c # s) =
     (if take (length pat) (c # s) = pat then Some 0 else map_option Suc (find_sub pat s))"

text \<open>
  The text handed to \<^verbatim>\<open>json.loads\<close>: from the first line break that is followed by
  an opening brace, else all of the stripped output.
\<close>

definition json_text :: "string \<Rightarrow> string" where
  "json_text raw =
     (case find_sub [NL, CHR ''{''] raw of Some i \<Rightarrow> drop (i + 1) raw | None \<Rightarrow> raw)"

text \<open>
  The body of the inner \<^verbatim>\<open>try\<close> of \<^verbatim>\<open>invoke_claude\<close> once \<^verbatim>\<open>json.loads\<close> has
  returned \<open>data\<close>: response text and cost, or the exception an operation raises on a
  value of the wrong shape.
\<close>

fun claude_texts :: "json list \<Rightarrow> json list" where
  "claude_texts [] = []"
| "claude_texts (JObj kv # ps) =
     (if truthy (dict_get kv ''text'' JNull) then dict_get kv ''text'' JNull # claude_texts ps
      else claude_texts ps)"
| "claude_texts (p # ps) = claude_texts ps"

definition claude_extract :: "(json \<Rightarrow> string) \<Rightarrow> string \<Rightarrow> json \<Rightarrow> py_exn + string \<times> json" where
  "claude_extract repr json_str data =
     (case data of
        JObj kv \<Rightarrow>
          (case (case dict_get kv ''result'' (JStr json_str) of
                   JObj rkv \<Rightarrow>
                     (case py_iter (dict_get rkv ''payloads'' (JArr [])) of
                        Inl e \<Rightarrow> Inl e
                      | Inr ps \<Rightarrow>
                          if claude_texts ps \<noteq> [] then py_join [NL] (claude_texts ps)
                          else Inr (py_str repr
                                 (dict_get rkv ''text''
                                    (dict_get rkv ''message'' (JStr ''No response'')))))
                 | result \<Rightarrow> Inr (py_str repr result)) of
             Inl e \<Rightarrow> Inl e
           | Inr text \<Rightarrow> Inr (text, dict_get kv ''cost_usd'' (JFloat 0)))
      | _ \<Rightarrow> Inl AttributeError)"

text \<open>
  The inner \<^verbatim>\<open>try ... except (json.JSONDecodeError, KeyError)\<close>: \<open>loads\<close> is
  \<^verbatim>\<open>json.loads\<close>, \<open>None\<close> where it raises \<^verbatim>\<open>JSONDecodeError\<close>. Only the two listed
  exceptions reach the fallback to the raw output; any other propagates.
\<close>

definition claude_parse ::
  "(string \<Rightarrow> json option) \<Rightarrow> (json \<Rightarrow> string) \<Rightarrow> string \<Rightarrow> py_exn + string \<times> json" where
  "claude_parse loads repr raw =
     (case (case loads (json_text raw) of
              None \<Rightarrow> Inl JSONDecodeError
            | Some data \<Rightarrow> claude_extract repr (json_text raw) data) of
        Inl e \<Rightarrow>
          if e = JSONDecodeError \<or> e = KeyError then Inr (take 2000 raw, JFloat 0) else Inl e
      | Inr r \<Rightarrow> Inr r)"

text \<open>
  What the subprocess does, as the caller sees it: it cannot be started, it outlives the
  timeout, or it exits with a return code, its output and its error output (each \<open>None\<close>
  when the bytes are not valid UTF-8, so that \<^verbatim>\<open>decode()\<close> raises).
\<close>

datatype proc_outcome = SpawnFailed | TimedOut | Exited int "string option" "string option"

text \<open>
  The \<^verbatim>\<open>error\<close> entry of a result: the excerpt of standard error, the text
  \<^verbatim>\<open>"Timeout after {n}s"\<close>, or \<^verbatim>\<open>str(e)\<close> of a caught exception.
\<close>

datatype failure = ProcessError string | Timeout int | Crashed py_exn

record cli_result =
  response :: "json option"
  error :: "failure option"
  cost_usd :: json
  session_id :: string

record cli_env =
  claude_bin :: string
  claude_timeout :: int
  superclaw_bin :: string
  agent_timeout :: int

text \<open>
  \<^verbatim>\<open>create_subprocess_exec\<close> followed by \<^verbatim>\<open>wait_for(proc.communicate(), timeout)\<close>. On a
  timeout \<^verbatim>\<open>wait_for\<close> cancels the wait and raises; the source does nothing else to the
  process.
\<close>

definition spawn_and_wait ::
  "string list \<Rightarrow> int \<Rightarrow> proc_outcome \<Rightarrow> (world, int \<times> string option \<times> string option) ex" where
  "spawn_and_wait cmd timeout outcome w =
     (case outcome of
        SpawnFailed \<Rightarrow> (Inl OSError, w)
      | TimedOut \<Rightarrow>
          (Inl TimeoutError, w\<lparr>proc_ops := proc_ops w @ [Spawn cmd, Communicate timeout]\<rparr>)
      | Exited rc out err \<Rightarrow>
          (Inr (rc, out, err), w\<lparr>proc_ops := proc_ops w @ [Spawn cmd, Communicate timeout]\<rparr>))"

text \<open>The handle \<^verbatim>\<open>invoke_claude\<close> uses: the stored one, else a fresh one it tries to store.\<close>

definition claude_handle :: "string \<Rightarrow> string \<Rightarrow> (world, string) ex" where
  "claude_handle sess fresh =
     ex_bind (get_claude_session_id sess) (\<lambda>stored.
       if stored \<noteq> None \<and> stored \<noteq> Some [] then ex_return (the stored)
       else
         ex_bind get_pg (\<lambda>conn.
         ex_bind
           (if conn then
              try_except (ex_bind (pg_execute (set_handle sess fresh)) (\<lambda>_. pg_commit))
                (\<lambda>e. rollback_quietly)
            else ex_return ())
           (\<lambda>_. ex_return fresh)))"

definition claude_cmd :: "cli_env \<Rightarrow> string \<Rightarrow> string \<Rightarrow> bool \<Rightarrow> string list" where
  "claude_cmd env claude_sid message resume =
     [claude_bin env, ''-p'', ''--output-format'', ''json'', ''--session-id'', claude_sid]
       @ (if resume then [''--resume''] else [message])"

text \<open>
  The second half of \<^verbatim>\<open>invoke_claude\<close>, from the outer \<^verbatim>\<open>try\<close> on: run the
  process under the timeout and turn its outcome into a result.
\<close>

definition claude_run ::
  "cli_env \<Rightarrow> (string \<Rightarrow> json option) \<Rightarrow> (json \<Rightarrow> string) \<Rightarrow> proc_outcome
     \<Rightarrow> string \<Rightarrow> bool \<Rightarrow> string \<Rightarrow> (world, cli_result) ex" where
  "claude_run env loads repr outcome message resume claude_sid =
       try_except
         (ex_bind (spawn_and_wait (claude_cmd env claude_sid message resume)
                     (claude_timeout env) outcome)
            (\<lambda>(rc, out, err).
               if rc \<noteq> 0 then
                 (case err of
                    None \<Rightarrow> ex_raise UnicodeDecodeError
                  | Some e \<Rightarrow>
                      ex_bind (log_line ''Claude CLI failed'')
                        (\<lambda>_. ex_return
                           \<lparr>response = None, error = Some (ProcessError (take 500 (py_strip e))),
                            cost_usd = JFloat 0, session_id = claude_sid\<rparr>))
               else
                 (case out of
                    None \<Rightarrow> ex_raise UnicodeDecodeError
                  | Some text \<Rightarrow>
                      (case claude_parse loads repr (py_strip text) of
                         Inl e \<Rightarrow> ex_raise e
                       | Inr (response_text, cost) \<Rightarrow>
                           ex_return
                             \<lparr>response = Some (JStr response_text), error = None,
                              cost_usd = cost, session_id = claude_sid\<rparr>))))
         (\<lambda>e. if e = TimeoutError then
                 ex_bind (log_line ''Claude CLI timed out'')
                   (\<lambda>_. ex_return
                      \<lparr>response = None, error = Some (Timeout (claude_timeout env)),
                       cost_usd = JFloat 0, session_id = claude_sid\<rparr>)
               else
                 ex_bind (log_line ''Claude CLI exception'')
                   (\<lambda>_. ex_return
                      \<lparr>response = None, error = Some (Crashed e),
                       cost_usd = JFloat 0, session_id = claude_sid\<rparr>))"

text \<open>
  \<^verbatim>\<open>invoke_claude\<close>: \<open>loads\<close> is \<^verbatim>\<open>json.loads\<close>, \<open>repr\<close> the text of non-string
  values, \<open>fresh\<close> the token \<^verbatim>\<open>uuid.uuid4()\<close> yields if called, \<open>outcome\<close> what the
  subprocess does.
\<close>

definition invoke_claude ::
  "cli_env \<Rightarrow> (string \<Rightarrow> json option) \<Rightarrow> (json \<Rightarrow> string) \<Rightarrow> string \<Rightarrow> proc_outcome
     \<Rightarrow> string \<Rightarrow> string \<Rightarrow> bool \<Rightarrow> (world, cli_result) ex" where
  "invoke_claude env loads repr fresh outcome message sess resume =
     ex_bind (claude_handle sess fresh) (claude_run env loads repr outcome message resume)"

text \<open>
  \<^verbatim>\<open>invoke_agent\<close>. Its parser reads other fields than \<^verbatim>\<open>invoke_claude\<close>'s and may
  return a value that is not a string. \<open>split_on\<close> is \<^verbatim>\<open>str.split(sep)\<close> for a
  one-character separator, \<open>starts_with\<close> is \<^verbatim>\<open>str.startswith\<close>.
\<close>

fun split_on :: "char \<Rightarrow> string \<Rightarrow> string list" where
  "split_on sep [] = [[]]"
| "split_on sep (c # s) =
     (if c = sep then [] # split_on sep s
      else (case split_on sep s of [] \<Rightarrow> [[c]] | l # ls \<Rightarrow> (c # l) # ls))"

definition starts_with :: "string \<Rightarrow> string \<Rightarrow> bool" where
  "starts_with pre s = (take (length pre) s = pre)"

definition DQ :: char where
  "DQ = CHR 0x22"

text \<open>The last resort of \<^verbatim>\<open>invoke_agent\<close>: the lines that do not look like JSON or plugin noise.\<close>

definition agent_fallback :: "string \<Rightarrow> string" where
  "agent_fallback raw =
     (let text_lines =
            filter (\<lambda>l. \<not> (starts_with ''{'' (py_strip l) \<or> starts_with ''}'' (py_strip l)
                              \<or> starts_with [DQ] (py_strip l))
                          \<and> \<not> starts_with ''[plugins]'' (py_strip l))
              (split_on NL raw);
          joined = py_strip (join_with [NL] text_lines)
      in if joined \<noteq> [] then joined else take 500 raw)"

text \<open>\<^verbatim>\<open>[p["text"] for p in payloads if p.get("text")]\<close>: a fragment that is no object has no \<^verbatim>\<open>get\<close>.\<close>

fun agent_texts :: "json list \<Rightarrow> py_exn + json list" where
  "agent_texts [] = Inr []"
| "agent_texts (JObj kv # ps) =
     (case agent_texts ps of
        Inl e \<Rightarrow> Inl e
      | Inr ts \<Rightarrow>
          Inr (if truthy (dict_get kv ''text'' JNull) then dict_get kv ''text'' JNull # ts else ts))"
| "agent_texts (p # ps) = Inl AttributeError"

text \<open>
  The body of the inner \<^verbatim>\<open>try\<close> of \<^verbatim>\<open>invoke_agent\<close> on parsed \<open>data\<close>. On a value
  that is no object, \<^verbatim>\<open>"result" in data\<close> raises for scalars, and for lists and strings
  either the subscript or the \<^verbatim>\<open>get\<close> that follows raises.
\<close>

definition agent_extract :: "json \<Rightarrow> py_exn + json" where
  "agent_extract data =
     (case data of
        JObj kv \<Rightarrow>
          (case map_of kv ''result'' of
             Some (JObj rkv) \<Rightarrow>
               (case py_iter (dict_get rkv ''payloads'' (JArr [])) of
                  Inl e \<Rightarrow> Inl e
                | Inr ps \<Rightarrow>
                    (case agent_texts ps of
                       Inl e \<Rightarrow> Inl e
                     | Inr ts \<Rightarrow>
                         if ts \<noteq> [] then
                           (case py_join [NL] ts of Inl e \<Rightarrow> Inl e | Inr text \<Rightarrow> Inr (JStr text))
                         else Inr (dict_get kv ''summary'' (JStr ''No response text''))))
           | _ \<Rightarrow>
               Inr (dict_get kv ''response''
                      (dict_get kv ''output''
                         (dict_get kv ''text'' (JStr ''No response text'')))))
      | JArr xs \<Rightarrow> if List.member xs (JStr ''result'') then Inl TypeError else Inl AttributeError
      | JStr s \<Rightarrow> if find_sub ''result'' s \<noteq> None then Inl TypeError else Inl AttributeError
      | _ \<Rightarrow> Inl TypeError)"

definition agent_parse :: "(string \<Rightarrow> json option) \<Rightarrow> string \<Rightarrow> py_exn + json" where
  "agent_parse loads raw =
     (case (case loads (json_text raw) of
              None \<Rightarrow> Inl JSONDecodeError
            | Some data \<Rightarrow> agent_extract data) of
        Inl e \<Rightarrow>
          if e = JSONDecodeError \<or> e = KeyError then Inr (JStr (agent_fallback raw)) else Inl e
      | Inr v \<Rightarrow> Inr v)"

record agent_result =
  ag_response :: "json option"
  ag_error :: "failure option"

definition agent_cmd :: "cli_env \<Rightarrow> string \<Rightarrow> string \<Rightarrow> string \<Rightarrow> string list" where
  "agent_cmd env target_agent message sess =
     [superclaw_bin env, ''agent'', ''--agent'', target_agent, ''--message'', message,
      ''--session-id'', sess, ''--json'']"

definition invoke_agent ::
  "cli_env \<Rightarrow> (string \<Rightarrow> json option) \<Rightarrow> proc_outcome \<Rightarrow> string \<Rightarrow> string \<Rightarrow> string
     \<Rightarrow> (world, agent_result) ex" where
  "invoke_agent env loads outcome target_agent message sess =
     try_except
       (ex_bind (spawn_and_wait (agent_cmd env target_agent message sess)
                   (agent_timeout env) outcome)
          (\<lambda>(rc, out, err).
             if rc \<noteq> 0 then
               (case err of
                  None \<Rightarrow> ex_raise UnicodeDecodeError
                | Some e \<Rightarrow>
                    ex_bind (log_line ''SuperClaw agent failed'')
                      (\<lambda>_. ex_return
                         \<lparr>ag_response = None,
                          ag_error = Some (ProcessError (take 500 (py_strip e)))\<rparr>))
             else
               (case out of
                  None \<Rightarrow> ex_raise UnicodeDecodeError
                | Some text \<Rightarrow>
                    (case agent_parse loads (py_strip text) of
                       Inl e \<Rightarrow> ex_raise e
                     | Inr v \<Rightarrow>
                         ex_return
                           \<lparr>ag_response = (if v = JNull then None else Some v),
                            ag_error = None\<rparr>))))
       (\<lambda>e. if e = TimeoutError then
               ex_bind (log_line ''SuperClaw agent timed out'')
                 (\<lambda>_. ex_return
                    \<lparr>ag_response = None, ag_error = Some (Timeout (agent_timeout env))\<rparr>)
             else
               ex_bind (log_line ''SuperClaw agent exception'')
                 (\<lambda>_. ex_return \<lparr>ag_response = None, ag_error = Some (Crashed e)\<rparr>))"

text \<open>
  The output of scenario C: a plugin banner, then the line \<^verbatim>\<open>{"result":"hello"}\<close>; and a
  stand-in for \<^verbatim>\<open>json.loads\<close> that knows that line and the text \<^verbatim>\<open>42\<close> only.
\<close>

definition hello_json :: string where
  "hello_json = ''{'' @ [DQ] @ ''result'' @ [DQ] @ '':'' @ [DQ] @ ''hello'' @ [DQ] @ ''}''"

definition hello_stdout :: string where
  "hello_stdout = ''[plugin] loaded'' @ [NL] @ hello_json @ [NL]"

definition two_texts_loads :: "string \<Rightarrow> json option" where
  "two_texts_loads s =
     (if s = ''42'' then Some (JInt 42)
      else if s = hello_json then Some (JObj [(''result'', JStr ''hello'')])
      else None)"

text \<open>An empty store with nothing scheduled to fail.\<close>

definition empty_tables :: tables where
  "empty_tables = \<lparr>sessions = [], audit_rows = [], outbox = []\<rparr>"

definition healthy_world :: world where
  "healthy_world =
     \<lparr>durable = empty_tables, working = empty_tables, event_seq = 0, pg_up = [],
      db_faults = [], fs_faults = [], jsonl_file = [], log_lines = [], proc_ops = []\<rparr>"






text \<open>The default configuration, a parser that rejects everything, a constant \<open>repr\<close>.\<close>

definition default_env :: cli_env where
  "default_env = \<lparr>claude_bin = ''claude'', claude_timeout = 120,
                   superclaw_bin = ''openclaw'', agent_timeout = 120\<rparr>"

definition no_json :: "string \<Rightarrow> json option" where
  "no_json s = None"

definition plain_repr :: "json \<Rightarrow> string" where
  "plain_repr v = ''?''"

text \<open>A store holding one session with the handle \<open>h1\<close>, and a world whose store is down.\<close>

definition stored_session :: session_row where
  "stored_session =
     \<lparr>sid = ''hermes-a-claude-general'', s_caller = ''a'', s_target = ''claude'',
      s_type = ''claude'', claude_session_id = Some ''h1'', message_count = 0, last_used = 0\<rparr>"

definition stored_world :: world where
  "stored_world =
     healthy_world\<lparr>durable := empty_tables\<lparr>sessions := [stored_session]\<rparr>,
                   working := empty_tables\<lparr>sessions := [stored_session]\<rparr>\<rparr>"

definition down_world :: world where
  "down_world = healthy_world\<lparr>pg_up := [False, False, False, False, False, False]\<rparr>"

text \<open>The audit record of a denied call.\<close>

definition denied_call_audit :: audit_row where
  "denied_call_audit =
     \<lparr>a_caller = ''c1'', a_endpoint = ''/claude/ask'', a_target = Some ''claude'',
      a_priority = ''normal'', a_request = Some ''hello'', a_response = None,
      a_latency_ms = None, a_cost_usd = 0, a_success = False,
      a_error = Some ''Policy denied: Global rate limit (60/hr) exceeded'',
      a_metadata = JObj []\<rparr>"

section \<open>Properties\<close>

subsection \<open>Counters as association lists\<close>

definition wsum :: "(real list \<Rightarrow> nat) \<Rightarrow> rate_counts \<Rightarrow> nat" where
  "wsum f rc = sum_list (map (\<lambda>kv. f (snd kv)) rc)"

definition newer :: "real \<Rightarrow> real list \<Rightarrow> nat" where
  "newer lo ts = length (filter (\<lambda>t. lo < t) ts)"

text \<open>
  \<open>tracks hi acc rc\<close>: the counters \<open>rc\<close> still hold every call of \<open>acc\<close> that is
  younger than an hour at time \<open>hi\<close>, the latest clock reading so far.
\<close>

definition tracks :: "real \<Rightarrow> (string \<times> real) list \<Rightarrow> rate_counts \<Rightarrow> bool" where
  "tracks hi acc rc =
     (distinct (map fst rc) \<and> (\<forall>x \<in> set acc. snd x \<le> hi)
      \<and> (\<forall>c lo. hi - 3600 \<le> lo \<longrightarrow>
            newer lo (map snd (filter (\<lambda>x. fst x = c) acc)) \<le> newer lo (rc_get rc c))
      \<and> (\<forall>lo. hi - 3600 \<le> lo \<longrightarrow> newer lo (map snd acc) \<le> wsum (newer lo) rc))"

definition under_limits :: "policy \<Rightarrow> rate_counts \<Rightarrow> bool" where
  "under_limits pol rc =
     ((\<forall>c. int (length (rc_get rc c)) \<le> max 0 (agent_limit pol c))
      \<and> int (total_calls rc) \<le> max 0 (global_limit pol))"

definition bounded :: "policy \<Rightarrow> (string \<times> real) list \<Rightarrow> bool" where
  "bounded pol acc =
     ((\<forall>c T. int (caller_calls_in_window acc c T) \<le> max 0 (agent_limit pol c))
      \<and> (\<forall>T. int (calls_in_window acc T) \<le> max 0 (global_limit pol)))"








text \<open>Auxiliary notions for computations that may raise.\<close>

definition returned :: "(py_exn + 'a) \<times> 's \<Rightarrow> 'a option" where
  "returned r = (case fst r of Inl e \<Rightarrow> None | Inr x \<Rightarrow> Some x)"

definition never_raises :: "('s, 'a) ex \<Rightarrow> bool" where
  "never_raises m = (\<forall>s. \<exists>x. fst (m s) = Inr x)"

definition yields :: "'a \<Rightarrow> ('s, 'a) ex \<Rightarrow> bool" where
  "yields v m = (\<forall>s x. fst (m s) = Inr x \<longrightarrow> x = v)"

definition keeps :: "('s \<Rightarrow> 'b) \<Rightarrow> ('s, 'a) ex \<Rightarrow> bool" where
  "keeps f m = (\<forall>s. f (snd (m s)) = f s)"

definition audit_db_part :: "audit_row \<Rightarrow> bool \<Rightarrow> (world, unit) ex" where
  "audit_db_part r conn =
     (if conn then
        try_except
          (ex_bind (pg_execute (insert_audit
                      (r\<lparr>a_request := summary 500 (a_request r),
                         a_response := summary 500 (a_response r)\<rparr>)))
             (\<lambda>_. pg_commit))
          (\<lambda>e. ex_bind rollback_quietly
             (\<lambda>_. log_line ''Audit log Postgres write failed''))
      else ex_return ())"



lemma total_calls_wsum: "total_calls rc = wsum length rc"
  by (simp add: total_calls_def wsum_def)

lemma rc_get_update: "rc_get (AList.update k v rc) k' = (if k' = k then v else rc_get rc k')"
  by (simp add: rc_get_def update_conv')

lemma wsum_update:
  "f [] = 0 \<Longrightarrow> distinct (map fst rc) \<Longrightarrow>
     wsum f (AList.update k v rc) + f (rc_get rc k) = wsum f rc + f v"
proof (induction rc)
  case Nil
  then show ?case by (simp add: wsum_def rc_get_def)
next
  case (Cons a rc)
  obtain k' v' where a: "a = (k', v')" by (cases a)
  show ?case
  proof (cases "k' = k")
    case True
    then show ?thesis using a by (simp add: wsum_def rc_get_def)
  next
    case False
    have "rc_get (a # rc) k = rc_get rc k" using False a by (simp add: rc_get_def)
    moreover have "wsum f (AList.update k v (a # rc)) = f v' + wsum f (AList.update k v rc)"
      using False a by (simp add: wsum_def)
    moreover have "wsum f (a # rc) = f v' + wsum f rc" using a by (simp add: wsum_def)
    ultimately show ?thesis using Cons by simp
  qed
qed

lemma wsum_mono: "(\<And>ts. f ts \<le> g ts) \<Longrightarrow> wsum f rc \<le> wsum g rc"
  unfolding wsum_def by (induction rc) (auto intro: add_mono)

lemma newer_Nil: "newer lo [] = 0" by (simp add: newer_def)

lemma newer_le: "newer lo ts \<le> length ts" by (simp add: newer_def)

lemma newer_pruned: "now - 3600 \<le> lo \<Longrightarrow> newer lo (filter (\<lambda>t. t > now - 3600) ts) = newer lo ts"
proof -
  assume h: "now - 3600 \<le> lo"
  have "(\<lambda>t. now - 3600 < t \<and> lo < t) = (\<lambda>t. lo < t)" using h by auto
  then show ?thesis by (simp add: newer_def)
qed

lemma newer_snoc: "newer lo (ts @ [t]) = newer lo ts + (if lo < t then 1 else 0)"
  by (simp add: newer_def)

lemma tracks_empty: "tracks t0 [] []"
  by (simp add: tracks_def newer_def wsum_def rc_get_def)

lemma tracks_mono:
  assumes "tracks hi acc rc" and "hi \<le> hi'"
  shows "tracks hi' acc rc"
proof -
  have "\<And>lo. hi' - 3600 \<le> lo \<Longrightarrow> hi - 3600 \<le> lo" using assms(2) by simp
  moreover have "\<forall>x \<in> set acc. snd x \<le> hi'" using assms by (force simp: tracks_def)
  ultimately show ?thesis using assms(1) unfolding tracks_def by simp
qed

lemma tracks_prune:
  assumes "tracks hi acc rc" and "hi \<le> now"
  shows "tracks now acc (prune rc c now)"
proof -
  have d: "distinct (map fst rc)" using assms(1) by (simp add: tracks_def)
  have 1: "distinct (map fst (prune rc c now))" using d by (simp add: prune_def distinct_update)
  have 2: "\<forall>x \<in> set acc. snd x \<le> now" using assms by (force simp: tracks_def)
  have 3: "newer lo (map snd (filter (\<lambda>x. fst x = c') acc)) \<le> newer lo (rc_get (prune rc c now) c')"
    if "now - 3600 \<le> lo" for c' lo
  proof -
    have "hi - 3600 \<le> lo" using that assms(2) by simp
    then have "newer lo (map snd (filter (\<lambda>x. fst x = c') acc)) \<le> newer lo (rc_get rc c')"
      using assms(1) by (simp add: tracks_def)
    then show ?thesis using that by (auto simp: prune_def rc_get_update newer_pruned)
  qed
  have 4: "newer lo (map snd acc) \<le> wsum (newer lo) (prune rc c now)" if "now - 3600 \<le> lo" for lo
  proof -
    have "hi - 3600 \<le> lo" using that assms(2) by simp
    then have a: "newer lo (map snd acc) \<le> wsum (newer lo) rc"
      using assms(1) by (simp add: tracks_def)
    have "wsum (newer lo) (prune rc c now) + newer lo (rc_get rc c)
            = wsum (newer lo) rc + newer lo (filter (\<lambda>t. t > now - 3600) (rc_get rc c))"
      unfolding prune_def by (rule wsum_update) (simp_all add: newer_Nil d)
    then have "wsum (newer lo) (prune rc c now) = wsum (newer lo) rc"
      using that by (simp add: newer_pruned)
    then show ?thesis using a by simp
  qed
  show ?thesis unfolding tracks_def using 1 2 3 4 by blast
qed

lemma tracks_record:
  assumes "tracks hi acc rc" and "hi \<le> now"
  shows "tracks now (acc @ [(c, now)]) (record_call rc c now)"
proof -
  have d: "distinct (map fst rc)" using assms(1) by (simp add: tracks_def)
  have 1: "distinct (map fst (record_call rc c now))" using d by (simp add: record_call_def distinct_update)
  have 2: "\<forall>x \<in> set (acc @ [(c, now)]). snd x \<le> now" using assms by (force simp: tracks_def)
  have 3: "newer lo (map snd (filter (\<lambda>x. fst x = c') (acc @ [(c, now)])))
             \<le> newer lo (rc_get (record_call rc c now) c')"
    if "now - 3600 \<le> lo" for c' lo
  proof -
    have "hi - 3600 \<le> lo" using that assms(2) by simp
    then have "newer lo (map snd (filter (\<lambda>x. fst x = c') acc)) \<le> newer lo (rc_get rc c')"
      using assms(1) by (simp add: tracks_def)
    then show ?thesis by (auto simp: record_call_def rc_get_update newer_snoc)
  qed
  have 4: "newer lo (map snd (acc @ [(c, now)])) \<le> wsum (newer lo) (record_call rc c now)"
    if "now - 3600 \<le> lo" for lo
  proof -
    have "hi - 3600 \<le> lo" using that assms(2) by simp
    then have a: "newer lo (map snd acc) \<le> wsum (newer lo) rc"
      using assms(1) by (simp add: tracks_def)
    have "wsum (newer lo) (record_call rc c now) + newer lo (rc_get rc c)
            = wsum (newer lo) rc + newer lo (rc_get rc c @ [now])"
      unfolding record_call_def by (rule wsum_update) (simp_all add: newer_Nil d)
    then show ?thesis using a by (simp add: newer_snoc)
  qed
  show ?thesis unfolding tracks_def using 1 2 3 4 by blast
qed

lemma under_limits_empty: "under_limits pol []"
  by (simp add: under_limits_def rc_get_def total_calls_def)

lemma total_calls_prune:
  assumes "distinct (map fst rc)"
  shows "total_calls (prune rc c now) \<le> total_calls rc"
proof -
  have "wsum length (prune rc c now) + length (rc_get rc c)
          = wsum length rc + length (filter (\<lambda>t. t > now - 3600) (rc_get rc c))"
    unfolding prune_def by (rule wsum_update) (simp_all add: assms)
  moreover have "length (filter (\<lambda>t. t > now - 3600) (rc_get rc c)) \<le> length (rc_get rc c)"
    by simp
  ultimately show ?thesis unfolding total_calls_wsum by linarith
qed

lemma total_calls_record:
  assumes "distinct (map fst rc)"
  shows "total_calls (record_call rc c now) = total_calls rc + 1"
proof -
  have "wsum length (record_call rc c now) + length (rc_get rc c)
          = wsum length rc + length (rc_get rc c @ [now])"
    unfolding record_call_def by (rule wsum_update) (simp_all add: assms)
  then show ?thesis unfolding total_calls_wsum by simp
qed

lemma under_limits_prune:
  assumes "under_limits pol rc" and "distinct (map fst rc)"
  shows "under_limits pol (prune rc c now)"
proof -
  have "int (length (rc_get (prune rc c now) c')) \<le> max 0 (agent_limit pol c')" for c'
  proof -
    have "length (rc_get (prune rc c now) c') \<le> length (rc_get rc c')"
      by (simp add: prune_def rc_get_update)
    moreover have "int (length (rc_get rc c')) \<le> max 0 (agent_limit pol c')"
      using assms(1) by (simp add: under_limits_def)
    ultimately show ?thesis by linarith
  qed
  moreover have "int (total_calls (prune rc c now)) \<le> max 0 (global_limit pol)"
    using total_calls_prune [OF assms(2), of c now] assms(1) by (simp add: under_limits_def)
  ultimately show ?thesis by (simp add: under_limits_def)
qed

lemma under_limits_record:
  assumes "under_limits pol rc" and "distinct (map fst rc)"
    and "int (total_calls rc) < global_limit pol"
    and "int (length (rc_get rc c)) < agent_limit pol c"
  shows "under_limits pol (record_call rc c now)"
proof -
  have "int (length (rc_get (record_call rc c now) c')) \<le> max 0 (agent_limit pol c')" for c'
    using assms(1,4) by (auto simp: record_call_def rc_get_update under_limits_def)
  moreover have "int (total_calls (record_call rc c now)) \<le> max 0 (global_limit pol)"
    using assms(2,3) by (simp add: total_calls_record)
  ultimately show ?thesis by (simp add: under_limits_def)
qed

text \<open>What a gate evaluation can do to the counters.\<close>

lemma gate_call_cases:
  "(fst (gate_call pol rc c) \<noteq> Accepted
      \<and> (snd (gate_call pol rc c) = rc \<or> snd (gate_call pol rc c) = prune rc (caller c) (t_gate c)))
   \<or> (fst (gate_call pol rc c) = Accepted
      \<and> snd (gate_call pol rc c) = record_call (prune rc (caller c) (t_gate c)) (caller c) (t_record c)
      \<and> int (total_calls (prune rc (caller c) (t_gate c))) < global_limit pol
      \<and> int (length (rc_get (prune rc (caller c) (t_gate c)) (caller c))) < agent_limit pol (caller c))"
  by (auto simp: gate_call_def enforce_policy_def check_rate_limit_def Let_def
           split: sum.splits option.splits prod.splits if_splits)

lemma bounded_empty: "bounded pol []"
  by (simp add: bounded_def caller_calls_in_window_def calls_in_window_def)

lemma window_all_old:
  assumes "\<forall>x \<in> set acc. snd x \<le> T"
  shows "caller_calls_in_window acc c T = newer (T - 3600) (map snd (filter (\<lambda>x. fst x = c) acc))"
    and "calls_in_window acc T = newer (T - 3600) (map snd acc)"
proof -
  have "filter (\<lambda>(c', t). c' = c \<and> in_window T t) acc
          = filter (\<lambda>x. T - 3600 < snd x) (filter (\<lambda>x. fst x = c) acc)"
    using assms by (induction acc) (auto simp: in_window_def)
  then show "caller_calls_in_window acc c T = newer (T - 3600) (map snd (filter (\<lambda>x. fst x = c) acc))"
    by (simp add: caller_calls_in_window_def newer_def filter_map comp_def)
  have "filter (\<lambda>(c', t). in_window T t) acc = filter (\<lambda>x. T - 3600 < snd x) acc"
    using assms by (induction acc) (auto simp: in_window_def)
  then show "calls_in_window acc T = newer (T - 3600) (map snd acc)"
    by (simp add: calls_in_window_def newer_def filter_map comp_def)
qed

lemma bounded_snoc:
  assumes "bounded pol acc" and "tracks now (acc @ [(c, now)]) rc" and "under_limits pol rc"
  shows "bounded pol (acc @ [(c, now)])"
proof -
  let ?acc = "acc @ [(c, now)]"
  have old: "\<forall>x \<in> set ?acc. snd x \<le> now" using assms(2) by (simp add: tracks_def)
  have a: "int (caller_calls_in_window ?acc c' T) \<le> max 0 (agent_limit pol c')" for c' T
  proof (cases "now \<le> T")
    case True
    then have "\<forall>x \<in> set ?acc. snd x \<le> T" using old by force
    then have "caller_calls_in_window ?acc c' T
                 = newer (T - 3600) (map snd (filter (\<lambda>x. fst x = c') ?acc))"
      by (rule window_all_old)
    also have "\<dots> \<le> newer (T - 3600) (rc_get rc c')"
      using assms(2) True by (simp add: tracks_def)
    also have "\<dots> \<le> length (rc_get rc c')" by (rule newer_le)
    finally have "caller_calls_in_window ?acc c' T \<le> length (rc_get rc c')" .
    moreover have "int (length (rc_get rc c')) \<le> max 0 (agent_limit pol c')"
      using assms(3) by (simp add: under_limits_def)
    ultimately show ?thesis by linarith
  next
    case False
    then have "caller_calls_in_window ?acc c' T = caller_calls_in_window acc c' T"
      by (simp add: caller_calls_in_window_def in_window_def)
    then show ?thesis using assms(1) by (simp add: bounded_def)
  qed
  have b: "int (calls_in_window ?acc T) \<le> max 0 (global_limit pol)" for T
  proof (cases "now \<le> T")
    case True
    then have "\<forall>x \<in> set ?acc. snd x \<le> T" using old by force
    then have "calls_in_window ?acc T = newer (T - 3600) (map snd ?acc)"
      by (rule window_all_old)
    also have "\<dots> \<le> wsum (newer (T - 3600)) rc"
      using assms(2) True by (simp add: tracks_def)
    also have "\<dots> \<le> wsum length rc" by (rule wsum_mono) (rule newer_le)
    finally have "calls_in_window ?acc T \<le> total_calls rc" by (simp add: total_calls_wsum)
    moreover have "int (total_calls rc) \<le> max 0 (global_limit pol)"
      using assms(3) by (simp add: under_limits_def)
    ultimately show ?thesis by linarith
  next
    case False
    then have "calls_in_window ?acc T = calls_in_window acc T"
      by (simp add: calls_in_window_def in_window_def)
    then show ?thesis using assms(1) by (simp add: bounded_def)
  qed
  show ?thesis unfolding bounded_def using a b by blast
qed

lemma accepted_Cons:
  "accepted ((c, out) # run) = (if out = Accepted then [(caller c, t_record c)] else []) @ accepted run"
  by (simp add: accepted_def)

lemma serve_bounded:
  "tracks hi acc rc \<Longrightarrow> under_limits pol rc \<Longrightarrow> bounded pol acc \<Longrightarrow> well_timed hi calls
     \<Longrightarrow> bounded pol (acc @ accepted (serve pol rc calls))"
proof (induction calls arbitrary: hi acc rc)
  case Nil
  then show ?case by (simp add: accepted_def)
next
  case (Cons c cs)
  have t: "hi \<le> t_gate c" "t_gate c \<le> t_record c" "well_timed (t_record c) cs"
    using Cons.prems(4) by simp_all
  have d: "distinct (map fst rc)" using Cons.prems(1) by (simp add: tracks_def)
  let ?p = "prune rc (caller c) (t_gate c)"
  have tp: "tracks (t_gate c) acc ?p" using Cons.prems(1) t(1) by (rule tracks_prune)
  have wp: "under_limits pol ?p" using Cons.prems(2) d by (rule under_limits_prune)
  consider
    (deny) "fst (gate_call pol rc c) \<noteq> Accepted"
           "snd (gate_call pol rc c) = rc \<or> snd (gate_call pol rc c) = ?p"
  | (allow) "fst (gate_call pol rc c) = Accepted"
           "snd (gate_call pol rc c) = record_call ?p (caller c) (t_record c)"
           "int (total_calls ?p) < global_limit pol"
           "int (length (rc_get ?p (caller c))) < agent_limit pol (caller c)"
    using gate_call_cases [of pol rc c] by blast
  then show ?case
  proof cases
    case deny
    have "tracks (t_record c) acc (snd (gate_call pol rc c))"
      using deny(2) tracks_mono [OF Cons.prems(1)] tracks_mono [OF tp] t by auto
    moreover have "under_limits pol (snd (gate_call pol rc c))"
      using deny(2) Cons.prems(2) wp by auto
    ultimately have "bounded pol (acc @ accepted (serve pol (snd (gate_call pol rc c)) cs))"
      using Cons.IH Cons.prems(3) t(3) by blast
    then show ?thesis using deny(1) by (simp add: accepted_Cons)
  next
    case allow
    let ?r = "record_call ?p (caller c) (t_record c)"
    let ?acc = "acc @ [(caller c, t_record c)]"
    have tr: "tracks (t_record c) ?acc ?r" using tp t(2) by (rule tracks_record)
    have dp: "distinct (map fst ?p)" using tp by (simp add: tracks_def)
    have wr: "under_limits pol ?r" using wp dp allow(3,4) by (rule under_limits_record)
    have "bounded pol ?acc" using Cons.prems(3) tr wr by (rule bounded_snoc)
    then have "bounded pol (?acc @ accepted (serve pol ?r cs))"
      using Cons.IH tr wr t(3) by blast
    then show ?thesis using allow(1,2) by (simp add: accepted_Cons)
  qed
qed

subsection \<open>Evaluating the gate on concrete inputs\<close>

lemmas gate_defs = gate_call_def enforce_policy_def check_rate_limit_def is_quiet_hours_def
  hour_field_def py_int_def py_strip_def py_space_def py_digits_def is_digit_def digit_val_def
  is_exempt_def exempt_flag_def allowed_priorities_def agent_limit_def global_limit_def
  get_agent_limits_def default_limits_def prune_def record_call_def rc_get_def total_calls_def
  Let_def



subsection \<open>Rate ceilings over trailing windows\<close>

text \<open>
  Claim C1. Over any run of gated calls that starts with empty counters and whose clock
  does not run backwards, and for every caller \<open>c\<close> and every instant \<open>T\<close>, the calls
  accepted for \<open>c\<close> with a recorded time in the trailing hour \<open>(T - 3600, T]\<close> number at
  most the caller's calls-per-hour ceiling, and the calls accepted for all callers in
  that hour number at most the global ceiling. (A ceiling configured below zero admits
  no call at all, hence \<open>max 0\<close>.) In particular caller \<open>c1\<close>, with a ceiling of five,
  issuing six calls ten seconds apart has the first five accepted and the sixth denied
  with the per-agent rate-limit reason.
\<close>

theorem accepted_calls_within_ceilings:
  "(well_timed t0 calls \<longrightarrow>
      int (caller_calls_in_window (accepted (serve pol [] calls)) c T) \<le> max 0 (agent_limit pol c)
      \<and> int (calls_in_window (accepted (serve pol [] calls)) T) \<le> max 0 (global_limit pol))
   \<and> map snd (serve five_per_hour_policy []
                 (map c1_call [1000, 1010, 1020, 1030, 1040, 1050]))
       = [Accepted, Accepted, Accepted, Accepted, Accepted, Denied (AgentRateLimit ''c1'' 5)]"
proof (intro conjI impI)
  assume wt: "well_timed t0 calls"
  have "bounded pol ([] @ accepted (serve pol [] calls))"
    using tracks_empty under_limits_empty bounded_empty wt by (rule serve_bounded)
  then show "int (caller_calls_in_window (accepted (serve pol [] calls)) c T) \<le> max 0 (agent_limit pol c)"
    and "int (calls_in_window (accepted (serve pol [] calls)) T) \<le> max 0 (global_limit pol)"
    by (simp_all add: bounded_def)
next
  show "map snd (serve five_per_hour_policy [] (map c1_call [1000, 1010, 1020, 1030, 1040, 1050]))
       = [Accepted, Accepted, Accepted, Accepted, Accepted, Denied (AgentRateLimit ''c1'' 5)]"
    by (simp add: five_per_hour_policy_def base_policy_def c1_call_def gate_defs)
qed

theorem accepted_calls_within_ceilings_witness:
  "well_timed 0 (map c1_call [1000, 1010, 1020, 1030, 1040, 1050])
   \<and> int (caller_calls_in_window
        (accepted (serve five_per_hour_policy [] (map c1_call [1000, 1010, 1020, 1030, 1040, 1050])))
        ''c1'' 1050) \<le> 5
   \<and> int (calls_in_window
        (accepted (serve five_per_hour_policy [] (map c1_call [1000, 1010, 1020, 1030, 1040, 1050])))
        1050) \<le> 60"
proof -
  have wt: "well_timed 0 (map c1_call [1000, 1010, 1020, 1030, 1040, 1050])"
    by (simp add: c1_call_def)
  have "agent_limit five_per_hour_policy ''c1'' = 5" "global_limit five_per_hour_policy = 60"
    by (simp_all add: five_per_hour_policy_def base_policy_def agent_limit_def global_limit_def
          get_agent_limits_def)
  moreover have "max 0 (5::int) = 5" "max 0 (60::int) = 60" by simp_all
  ultimately show ?thesis
    using wt accepted_calls_within_ceilings
      [of 0 "map c1_call [1000, 1010, 1020, 1030, 1040, 1050]" five_per_hour_policy "''c1''" 1050]
    by metis
qed

subsection \<open>Quiet hours\<close>



subsection \<open>The global count over-approximates\<close>



subsection \<open>The drain loop in closed form\<close>























subsection \<open>Evaluating the store and the drain worker on concrete inputs\<close>

lemmas ex_defs = ex_return_def ex_raise_def ex_bind_def try_except_def get_pg_def pg_execute_def
  pg_commit_def pg_rollback_def rollback_quietly_def log_line_def fs_append_def next_serial_def





subsection \<open>Outbox status transitions\<close>



subsection \<open>Circuit break on an unreachable destination\<close>



subsection \<open>Computations that may raise\<close>

lemma never_raises_return: "never_raises (ex_return x)"
  by (simp add: never_raises_def ex_return_def)

lemma never_raises_bind:
  "never_raises m \<Longrightarrow> (\<And>x. never_raises (f x)) \<Longrightarrow> never_raises (ex_bind m f)"
  unfolding never_raises_def ex_bind_def
  by (auto split: prod.splits sum.splits) (metis fst_conv sum.distinct(1))

lemma never_raises_try: "(\<And>e. never_raises (h e)) \<Longrightarrow> never_raises (try_except m h)"
  unfolding never_raises_def try_except_def by (auto split: prod.splits sum.splits)

lemma never_raises_if:
  "never_raises a \<Longrightarrow> never_raises b \<Longrightarrow> never_raises (if c then a else b)"
  by simp

lemma never_raises_get_pg: "never_raises get_pg"
  by (auto simp: never_raises_def get_pg_def split: list.splits)

lemma never_raises_log_line: "never_raises (log_line msg)"
  by (simp add: never_raises_def log_line_def)

lemma never_raises_rollback_quietly: "never_raises rollback_quietly"
  unfolding rollback_quietly_def by (rule never_raises_try) (rule never_raises_return)

lemmas never_raises_intros = never_raises_return never_raises_bind never_raises_try
  never_raises_if never_raises_get_pg never_raises_log_line never_raises_rollback_quietly

lemma yields_return: "yields v (ex_return v)"
  by (simp add: yields_def ex_return_def)

lemma yields_bind: "(\<And>x. yields v (f x)) \<Longrightarrow> yields v (ex_bind m f)"
  unfolding yields_def ex_bind_def by (auto split: prod.splits sum.splits)

lemma yields_try: "yields v m \<Longrightarrow> (\<And>e. yields v (h e)) \<Longrightarrow> yields v (try_except m h)"
  unfolding yields_def try_except_def by (auto split: prod.splits sum.splits) (metis fst_conv)+

lemma yields_if: "yields v a \<Longrightarrow> yields v b \<Longrightarrow> yields v (if c then a else b)"
  by simp

lemma never_raises_yields: "never_raises m \<Longrightarrow> yields v m \<Longrightarrow> fst (m s) = Inr v"
  unfolding never_raises_def yields_def by metis

lemma audit_log_never_raises: "never_raises (audit_log pol r)"
  unfolding audit_log_def by (intro never_raises_intros)

lemma emit_event_never_raises: "never_raises (emit_event pol base now ev src pl)"
  unfolding emit_event_def by (intro never_raises_intros)

lemma get_or_create_session_never_raises:
  "never_raises (get_or_create_session c t ty p fresh now)"
  unfolding get_or_create_session_def Let_def resolve_failed_def by (intro never_raises_intros)

lemma get_or_create_session_yields:
  "yields (''hermes-'' @ c @ ''-'' @ t @ ''-'' @ p) (get_or_create_session c t ty p fresh now)"
  unfolding get_or_create_session_def Let_def resolve_failed_def resolve_write_def
  by (intro yields_bind yields_try yields_if yields_return)

lemma keeps_return: "keeps f (ex_return x)"
  by (simp add: keeps_def ex_return_def)

lemma keeps_raise: "keeps f (ex_raise e)"
  by (simp add: keeps_def ex_raise_def)

lemma keeps_bind: "keeps f m \<Longrightarrow> (\<And>x. keeps f (g x)) \<Longrightarrow> keeps f (ex_bind m g)"
  unfolding keeps_def ex_bind_def
  by (auto split: prod.splits sum.splits) (metis snd_conv)+

lemma keeps_try: "keeps f m \<Longrightarrow> (\<And>e. keeps f (h e)) \<Longrightarrow> keeps f (try_except m h)"
  unfolding keeps_def try_except_def
  by (auto split: prod.splits sum.splits) (metis snd_conv)+

lemma keeps_if: "keeps f a \<Longrightarrow> keeps f b \<Longrightarrow> keeps f (if c then a else b)"
  by simp

lemmas keeps_intros = keeps_return keeps_raise keeps_bind keeps_try keeps_if

lemma keeps_files:
  "keeps jsonl_file get_pg" "keeps fs_faults get_pg"
  "keeps jsonl_file (pg_execute q)" "keeps fs_faults (pg_execute q)"
  "keeps jsonl_file pg_commit" "keeps fs_faults pg_commit"
  "keeps jsonl_file pg_rollback" "keeps fs_faults pg_rollback"
  "keeps jsonl_file (log_line msg)" "keeps fs_faults (log_line msg)"
  by (auto simp: keeps_def get_pg_def pg_execute_def pg_commit_def pg_rollback_def log_line_def
           split: list.splits bool.splits sum.splits prod.splits)

lemma bind_after:
  assumes "never_raises m"
  shows "\<exists>x. fst (m s) = Inr x \<and> ex_bind m f s = f x (snd (m s))"
proof -
  obtain x where "fst (m s) = Inr x" using assms by (auto simp: never_raises_def)
  then show ?thesis by (cases "m s") (auto simp: ex_bind_def)
qed

lemma audit_db_part_props:
  "never_raises (audit_db_part r conn)"
  "keeps jsonl_file (audit_db_part r conn)"
  "keeps fs_faults (audit_db_part r conn)"
  unfolding audit_db_part_def rollback_quietly_def
  by (intro never_raises_intros keeps_intros keeps_files)+

lemma audit_log_backup:
  assumes "log_to_jsonl pol \<noteq> Some False" and "fs_faults w = [] \<or> \<not> hd (fs_faults w)"
  shows "jsonl_file (snd (audit_log pol r w))
           = jsonl_file w @ [r\<lparr>a_request := summary 200 (a_request r),
                               a_response := summary 200 (a_response r), a_metadata := JNull\<rparr>]"
proof -
  let ?entry = "r\<lparr>a_request := summary 200 (a_request r),
                   a_response := summary 200 (a_response r), a_metadata := JNull\<rparr>"
  let ?fs = "try_except (fs_append ?entry) (\<lambda>e. log_line ''JSONL audit write failed'')"
  have on: "(case log_to_jsonl pol of None \<Rightarrow> True | Some b \<Rightarrow> b)"
    using assms(1) by (cases "log_to_jsonl pol") auto
  have al: "audit_log pol r = ex_bind get_pg (\<lambda>conn. ex_bind (audit_db_part r conn) (\<lambda>_. ?fs))"
    using on by (simp add: audit_log_def audit_db_part_def)
  obtain conn where c: "audit_log pol r w = ex_bind (audit_db_part r conn) (\<lambda>_. ?fs) (snd (get_pg w))"
    unfolding al using bind_after [OF never_raises_get_pg] by blast
  let ?w1 = "snd (get_pg w)"
  obtain u where d: "ex_bind (audit_db_part r conn) (\<lambda>_. ?fs) ?w1 = ?fs (snd (audit_db_part r conn ?w1))"
    using bind_after [OF audit_db_part_props(1)] by blast
  let ?w2 = "snd (audit_db_part r conn ?w1)"
  have "jsonl_file ?w2 = jsonl_file w" "fs_faults ?w2 = fs_faults w"
    using audit_db_part_props(2,3) [of r conn] keeps_files(1,2) by (simp_all add: keeps_def)
  then have "jsonl_file (snd (?fs ?w2)) = jsonl_file w @ [?entry]"
    using assms(2)
    by (auto simp: try_except_def fs_append_def split: list.splits bool.splits)
  then show ?thesis using c d by simp
qed

lemma emit_event_store_down:
  assumes "pg_up w = False # ups"
  shows "snd (emit_event pol base now ev src pl w)
           = w\<lparr>pg_up := ups, log_lines := log_lines w @ [''Cannot emit event (Postgres down)'']\<rparr>"
  using assms by (simp add: emit_event_def ex_bind_def get_pg_def log_line_def)

subsection \<open>The session id is always returned\<close>

text \<open>
  Claim C10. In every world (store unreachable, or any storage statement of the call
  raising, or all of them succeeding) \<^verbatim>\<open>get_or_create_session\<close> returns, without
  raising, the string \<^verbatim>\<open>hermes-{caller_id}-{target}-{purpose}\<close>.
\<close>

theorem session_id_always_returned:
  "fst (get_or_create_session c t ty p fresh now w) = Inr (''hermes-'' @ c @ ''-'' @ t @ ''-'' @ p)"
  using get_or_create_session_never_raises get_or_create_session_yields
  by (rule never_raises_yields)

theorem session_id_always_returned_witness:
  "fst (get_or_create_session ''a'' ''claude'' ''claude'' ''general'' ''u1'' 0
          (healthy_world\<lparr>db_faults := [False, True]\<rparr>)) = Inr ''hermes-a-claude-general''
   \<and> fst (get_or_create_session ''a'' ''claude'' ''claude'' ''general'' ''u1'' 0
          (healthy_world\<lparr>pg_up := [False]\<rparr>)) = Inr ''hermes-a-claude-general''"
  using session_id_always_returned
      [of "''a''" "''claude''" "''claude''" "''general''" "''u1''" 0
          "healthy_world\<lparr>db_faults := [False, True]\<rparr>"]
    session_id_always_returned
      [of "''a''" "''claude''" "''claude''" "''general''" "''u1''" 0
          "healthy_world\<lparr>pg_up := [False]\<rparr>"]
  by simp

subsection \<open>Best-effort side effects\<close>

text \<open>
  Claim C8. In every world \<^verbatim>\<open>audit_log\<close> and \<^verbatim>\<open>emit_event\<close> return normally. When
  the store is unreachable \<^verbatim>\<open>emit_event\<close> only logs: the tables are untouched and the
  event is dropped. Whatever happens to the Postgres write, \<^verbatim>\<open>audit_log\<close> appends the
  entry to the JSONL backup when the policy does not switch the backup off and the file
  can be written.
\<close>

theorem side_effects_never_raise:
  "fst (audit_log pol r w) = Inr ()
   \<and> fst (emit_event pol base now ev src pl w) = Inr ()
   \<and> (pg_up w = False # ups \<longrightarrow>
        snd (emit_event pol base now ev src pl w)
          = w\<lparr>pg_up := ups, log_lines := log_lines w @ [''Cannot emit event (Postgres down)'']\<rparr>)
   \<and> (log_to_jsonl pol \<noteq> Some False \<and> (fs_faults w = [] \<or> \<not> hd (fs_faults w)) \<longrightarrow>
        jsonl_file (snd (audit_log pol r w))
          = jsonl_file w @ [r\<lparr>a_request := summary 200 (a_request r),
                              a_response := summary 200 (a_response r), a_metadata := JNull\<rparr>])"
proof (intro conjI impI)
  show "fst (audit_log pol r w) = Inr ()"
    using audit_log_never_raises [of pol r] by (auto simp: never_raises_def)
  show "fst (emit_event pol base now ev src pl w) = Inr ()"
    using emit_event_never_raises [of pol base now ev src pl] by (auto simp: never_raises_def)
  show "snd (emit_event pol base now ev src pl w)
          = w\<lparr>pg_up := ups, log_lines := log_lines w @ [''Cannot emit event (Postgres down)'']\<rparr>"
    if "pg_up w = False # ups"
    using that by (rule emit_event_store_down)
  show "jsonl_file (snd (audit_log pol r w))
          = jsonl_file w @ [r\<lparr>a_request := summary 200 (a_request r),
                              a_response := summary 200 (a_response r), a_metadata := JNull\<rparr>]"
    if "log_to_jsonl pol \<noteq> Some False \<and> (fs_faults w = [] \<or> \<not> hd (fs_faults w))"
    using that audit_log_backup by blast
qed

theorem side_effects_never_raise_witness:
  "fst (audit_log base_policy denied_call_audit (healthy_world\<lparr>db_faults := [True]\<rparr>)) = Inr ()
   \<and> audit_rows (durable (snd (audit_log base_policy denied_call_audit (healthy_world\<lparr>db_faults := [True]\<rparr>)))) = []
   \<and> jsonl_file (snd (audit_log base_policy denied_call_audit (healthy_world\<lparr>db_faults := [True]\<rparr>)))
       = [denied_call_audit\<lparr>a_request := summary 200 (a_request denied_call_audit),
             a_response := summary 200 (a_response denied_call_audit), a_metadata := JNull\<rparr>]
   \<and> snd (emit_event base_policy ''http://n8n'' 1 ''task.created'' ''agent'' None
            (healthy_world\<lparr>pg_up := [False]\<rparr>))
       = healthy_world\<lparr>pg_up := [], log_lines := [''Cannot emit event (Postgres down)'']\<rparr>"
proof -
  have "log_to_jsonl base_policy \<noteq> Some False"
    "fs_faults (healthy_world\<lparr>db_faults := [True]\<rparr>) = []"
    "jsonl_file (healthy_world\<lparr>db_faults := [True]\<rparr>) = []"
    "pg_up (healthy_world\<lparr>pg_up := [False]\<rparr>) = False # []"
    "log_lines (healthy_world\<lparr>pg_up := [False]\<rparr>) = []"
    "healthy_world\<lparr>pg_up := [False], pg_up := [], log_lines := [] @ [''Cannot emit event (Postgres down)'']\<rparr>
       = healthy_world\<lparr>pg_up := [], log_lines := [''Cannot emit event (Postgres down)'']\<rparr>"
    by (simp_all add: base_policy_def healthy_world_def)
  moreover have "audit_rows (durable (snd (audit_log base_policy denied_call_audit (healthy_world\<lparr>db_faults := [True]\<rparr>)))) = []"
    by (simp add: audit_log_def ex_defs base_policy_def healthy_world_def empty_tables_def)
  ultimately show ?thesis
    using side_effects_never_raise
        [of base_policy denied_call_audit "healthy_world\<lparr>db_faults := [True]\<rparr>" "''http://n8n''" 1
            "''task.created''" "''agent''" None "[]"]
      side_effects_never_raise
        [of base_policy denied_call_audit "healthy_world\<lparr>pg_up := [False]\<rparr>" "''http://n8n''" 1
            "''task.created''" "''agent''" None "[]"]
    by (metis append_Nil)
qed

subsection \<open>Sessions and handles\<close>

lemma invoke_claude_split:
  "invoke_claude env loads repr fresh outcome message sess resume
     = ex_bind (claude_handle sess fresh) (claude_run env loads repr outcome message resume)"
  by (simp add: invoke_claude_def)

lemma get_claude_session_id_never_raises: "never_raises (get_claude_session_id sess)"
  unfolding get_claude_session_id_def by (intro never_raises_intros)

lemma claude_handle_never_raises: "never_raises (claude_handle sess fresh)"
  unfolding claude_handle_def
  by (intro never_raises_intros get_claude_session_id_never_raises)

lemma claude_run_never_raises: "never_raises (claude_run env loads repr outcome message resume h)"
  unfolding claude_run_def by (intro never_raises_intros)

lemma claude_run_session_id:
  "fst (claude_run env loads repr outcome message resume h w) = Inr r \<Longrightarrow> session_id r = h"
  by (auto simp: claude_run_def try_except_def ex_bind_def spawn_and_wait_def ex_return_def
        ex_raise_def log_line_def
      split: proc_outcome.splits option.splits sum.splits prod.splits if_splits)

lemma claude_run_timeout:
  "claude_run env loads repr TimedOut message resume h w
     = (Inr \<lparr>response = None, error = Some (Timeout (claude_timeout env)),
             cost_usd = JFloat 0, session_id = h\<rparr>,
        w\<lparr>proc_ops := proc_ops w @ [Spawn (claude_cmd env h message resume),
                                     Communicate (claude_timeout env)],
          log_lines := log_lines w @ [''Claude CLI timed out'']\<rparr>)"
  by (simp add: claude_run_def try_except_def ex_bind_def spawn_and_wait_def ex_return_def
        log_line_def)

lemma invoke_claude_unfold:
  "\<exists>h. fst (claude_handle sess fresh w) = Inr h
       \<and> invoke_claude env loads repr fresh outcome message sess resume w
           = claude_run env loads repr outcome message resume h (snd (claude_handle sess fresh w))"
  unfolding invoke_claude_split using bind_after [OF claude_handle_never_raises] by blast

lemma invoke_claude_session_id:
  "map_option session_id (returned (invoke_claude env loads repr fresh outcome message sess resume w))
     = returned (claude_handle sess fresh w)"
proof -
  obtain h where h: "fst (claude_handle sess fresh w) = Inr h"
    "invoke_claude env loads repr fresh outcome message sess resume w
       = claude_run env loads repr outcome message resume h (snd (claude_handle sess fresh w))"
    using invoke_claude_unfold by blast
  obtain r where r: "fst (claude_run env loads repr outcome message resume h (snd (claude_handle sess fresh w))) = Inr r"
    using claude_run_never_raises [of env loads repr outcome message resume h]
    unfolding never_raises_def by blast
  then have "session_id r = h" by (rule claude_run_session_id)
  then show ?thesis using h r by (simp add: returned_def)
qed

lemma world_same: "db_faults w = [] \<Longrightarrow> w\<lparr>working := working w, db_faults := []\<rparr> = w"
  by (cases w) simp

lemma claude_handle_stored:
  assumes "pg_up w = []" and "db_faults w = []"
    and "find (\<lambda>r. sid r = sess) (sessions (working w)) = Some row"
    and "claude_session_id row = Some h" and "h \<noteq> []"
  shows "claude_handle sess fresh w = (Inr h, w)"
  using assms
  by (simp add: claude_handle_def get_claude_session_id_def ex_bind_def try_except_def
        get_pg_def pg_execute_def select_handle_def ex_return_def world_same)

lemma claude_run_store:
  "durable (snd (claude_run env loads repr outcome message resume h w)) = durable w"
  "working (snd (claude_run env loads repr outcome message resume h w)) = working w"
  "pg_up (snd (claude_run env loads repr outcome message resume h w)) = pg_up w"
  "db_faults (snd (claude_run env loads repr outcome message resume h w)) = db_faults w"
  by (auto simp: claude_run_def try_except_def ex_bind_def spawn_and_wait_def ex_return_def
        ex_raise_def log_line_def
      split: proc_outcome.splits option.splits sum.splits prod.splits if_splits)




lemma world_eq_with_sessions:
  "pg_up w = [] \<Longrightarrow> db_faults w = [] \<Longrightarrow>
     w\<lparr>working := t, db_faults := [], durable := t\<rparr> = w\<lparr>durable := t, working := t\<rparr>"
  by (cases w) simp








lemma filter_snoc_new:
  "find P xs = None \<Longrightarrow> P x \<Longrightarrow> filter P (xs @ [x]) = [x]"
  by (induction xs) (auto split: if_splits)








lemma claude_run_pg_up:
  "pg_up (snd (claude_run env loads repr outcome message resume h w)) = pg_up w"
  by (rule claude_run_store)


lemma key_a: "''hermes-'' @ ''a'' @ ''-'' @ ''claude'' @ ''-'' @ ''general'' = ''hermes-a-claude-general''"
  by simp

subsection \<open>Timeout of a CLI invocation\<close>

text \<open>
  Claim C6, as the code has it. An invocation whose subprocess outlives the timeout
  returns a result without response whose error is the timeout, carrying the handle the
  call resolved; after the handle was resolved nothing touches the session store. When
  the store answers and holds a non-empty handle for the session id, the timed-out call
  returns that handle, leaves the store as it was, and any later call with the same
  session id uses the same handle.
\<close>

theorem timeout_is_reported_and_store_kept:
  "map_option response (returned (invoke_claude env loads repr fresh TimedOut message sess resume w))
     = Some None
   \<and> map_option error (returned (invoke_claude env loads repr fresh TimedOut message sess resume w))
     = Some (Some (Timeout (claude_timeout env)))
   \<and> map_option session_id (returned (invoke_claude env loads repr fresh TimedOut message sess resume w))
     = returned (claude_handle sess fresh w)
   \<and> durable (snd (invoke_claude env loads repr fresh TimedOut message sess resume w))
     = durable (snd (claude_handle sess fresh w))
   \<and> working (snd (invoke_claude env loads repr fresh TimedOut message sess resume w))
     = working (snd (claude_handle sess fresh w))
   \<and> (pg_up w = [] \<and> db_faults w = []
        \<and> find (\<lambda>r. sid r = sess) (sessions (working w)) = Some row
        \<and> claude_session_id row = Some h \<and> h \<noteq> [] \<longrightarrow>
          map_option session_id
            (returned (invoke_claude env loads repr fresh TimedOut message sess resume w)) = Some h
          \<and> durable (snd (invoke_claude env loads repr fresh TimedOut message sess resume w))
              = durable w
          \<and> working (snd (invoke_claude env loads repr fresh TimedOut message sess resume w))
              = working w
          \<and> map_option session_id
              (returned (invoke_claude env loads repr fresh' outcome' message' sess resume'
                 (snd (invoke_claude env loads repr fresh TimedOut message sess resume w))))
              = Some h)"
proof -
  let ?first = "invoke_claude env loads repr fresh TimedOut message sess resume w"
  obtain k where k: "fst (claude_handle sess fresh w) = Inr k"
    "?first = claude_run env loads repr TimedOut message resume k (snd (claude_handle sess fresh w))"
    using invoke_claude_unfold by blast
  have a: "map_option response (returned ?first) = Some None"
    "map_option error (returned ?first) = Some (Some (Timeout (claude_timeout env)))"
    unfolding k(2) claude_run_timeout by (simp_all add: returned_def)
  have b: "map_option session_id (returned ?first) = returned (claude_handle sess fresh w)"
    by (rule invoke_claude_session_id)
  have c: "durable (snd ?first) = durable (snd (claude_handle sess fresh w))"
    "working (snd ?first) = working (snd (claude_handle sess fresh w))"
    unfolding k(2) by (simp_all add: claude_run_store)
  have d: "map_option session_id (returned ?first) = Some h
          \<and> durable (snd ?first) = durable w \<and> working (snd ?first) = working w
          \<and> map_option session_id
              (returned (invoke_claude env loads repr fresh' outcome' message' sess resume' (snd ?first)))
              = Some h"
    if h: "pg_up w = [] \<and> db_faults w = []
        \<and> find (\<lambda>r. sid r = sess) (sessions (working w)) = Some row
        \<and> claude_session_id row = Some h \<and> h \<noteq> []"
  proof -
    have s1: "claude_handle sess fresh w = (Inr h, w)"
      using h claude_handle_stored [of w sess row h fresh] by blast
    then have f: "?first = claude_run env loads repr TimedOut message resume h w"
      using k by simp
    let ?w1 = "snd ?first"
    have w1: "pg_up ?w1 = []" "db_faults ?w1 = []" "working ?w1 = working w" "durable ?w1 = durable w"
      unfolding f using h by (simp_all add: claude_run_store)
    then have "claude_handle sess fresh' ?w1 = (Inr h, ?w1)"
      using h claude_handle_stored [of ?w1 sess row h fresh'] by simp
    then have "returned (claude_handle sess fresh' ?w1) = Some h"
      by (simp add: returned_def)
    then have "map_option session_id
              (returned (invoke_claude env loads repr fresh' outcome' message' sess resume' ?w1))
              = Some h"
      by (simp only: invoke_claude_session_id)
    moreover have "map_option session_id (returned ?first) = Some h"
      using b s1 by (simp add: returned_def)
    ultimately show ?thesis using w1 by simp
  qed
  show ?thesis using a b c d by blast
qed

theorem timeout_is_reported_and_store_kept_witness:
  "pg_up stored_world = [] \<and> db_faults stored_world = []
   \<and> find (\<lambda>r. sid r = ''hermes-a-claude-general'') (sessions (working stored_world)) = Some stored_session
   \<and> claude_session_id stored_session = Some ''h1''
   \<and> map_option error (returned (invoke_claude default_env no_json plain_repr ''u1'' TimedOut ''hi''
         ''hermes-a-claude-general'' False stored_world)) = Some (Some (Timeout 120))
   \<and> map_option session_id (returned (invoke_claude default_env no_json plain_repr ''u1'' TimedOut ''hi''
         ''hermes-a-claude-general'' False stored_world)) = Some ''h1''
   \<and> map_option session_id
        (returned (invoke_claude default_env no_json plain_repr ''u2'' (Exited 0 (Some ''ok'') (Some [])) ''hi''
           ''hermes-a-claude-general'' True
           (snd (invoke_claude default_env no_json plain_repr ''u1'' TimedOut ''hi''
                   ''hermes-a-claude-general'' False stored_world)))) = Some ''h1''"
proof -
  have p: "pg_up stored_world = [] \<and> db_faults stored_world = []
        \<and> find (\<lambda>r. sid r = ''hermes-a-claude-general'') (sessions (working stored_world)) = Some stored_session
        \<and> claude_session_id stored_session = Some ''h1'' \<and> ''h1'' \<noteq> []"
    by (simp add: stored_world_def healthy_world_def empty_tables_def stored_session_def)
  have t: "claude_timeout default_env = 120" by (simp add: default_env_def)
  show ?thesis
    using p t timeout_is_reported_and_store_kept
      [of default_env no_json plain_repr "''u1''" "''hi''" "''hermes-a-claude-general''" False
          stored_world stored_session "''h1''" "''u2''" "Exited 0 (Some ''ok'') (Some [])" "''hi''" True]
    by metis
qed

text \<open>
  Against claim C6 as stated: the timed-out invocation spawns the process and waits for
  it, and that is all it does to it: no kill, no terminate. And with the store down no
  handle can be read, so each of two invocations for the same session id mints its own.
\<close>

theorem timeout_leaves_process_counterexample:
  "proc_ops (snd (invoke_claude default_env no_json plain_repr ''u1'' TimedOut ''hi''
       ''hermes-a-claude-general'' False stored_world))
     = [Spawn [''claude'', ''-p'', ''--output-format'', ''json'', ''--session-id'', ''h1'', ''hi''],
        Communicate 120]
   \<and> map_option session_id (returned (invoke_claude default_env no_json plain_repr ''u1'' TimedOut ''hi''
         ''hermes-a-claude-general'' False down_world)) = Some ''u1''
   \<and> map_option session_id
        (returned (invoke_claude default_env no_json plain_repr ''u2'' TimedOut ''hi''
           ''hermes-a-claude-general'' False
           (snd (invoke_claude default_env no_json plain_repr ''u1'' TimedOut ''hi''
                   ''hermes-a-claude-general'' False down_world)))) = Some ''u2''"
  by (simp add: invoke_claude_def claude_handle_def get_claude_session_id_def claude_run_def
        claude_cmd_def spawn_and_wait_def select_handle_def set_handle_def ex_defs returned_def
        default_env_def stored_world_def down_world_def healthy_world_def empty_tables_def
        stored_session_def)

subsection \<open>Resolving a session\<close>




subsection \<open>Recovering a response from CLI output\<close>

lemma strip_42: "py_strip ''42'' = ''42''"
  by (simp add: py_strip_def py_space_def)

lemma json_text_42: "json_text ''42'' = ''42''"
  by (simp add: json_text_def NL_def)

lemma claude_parse_scalar:
  "loads ''42'' = Some (JInt 42) \<Longrightarrow> claude_parse loads repr ''42'' = Inl AttributeError"
  by (simp add: claude_parse_def json_text_42 claude_extract_def)

lemma agent_parse_scalar:
  "loads ''42'' = Some (JInt 42) \<Longrightarrow> agent_parse loads ''42'' = Inl TypeError"
  by (simp add: agent_parse_def json_text_42 agent_extract_def)

lemma claude_run_crash:
  assumes "claude_parse loads repr (py_strip text) = Inl e" and "e \<noteq> TimeoutError"
  shows "fst (claude_run env loads repr (Exited 0 (Some text) err) message resume h w)
           = Inr \<lparr>response = None, error = Some (Crashed e), cost_usd = JFloat 0, session_id = h\<rparr>"
  using assms
  by (simp add: claude_run_def try_except_def ex_bind_def spawn_and_wait_def ex_return_def
        ex_raise_def log_line_def)

lemma invoke_agent_crash:
  assumes "agent_parse loads (py_strip text) = Inl e" and "e \<noteq> TimeoutError"
  shows "fst (invoke_agent env loads (Exited 0 (Some text) err) target message sess w)
           = Inr \<lparr>ag_response = None, ag_error = Some (Crashed e)\<rparr>"
  using assms
  by (simp add: invoke_agent_def try_except_def ex_bind_def spawn_and_wait_def ex_return_def
        ex_raise_def log_line_def)

lemma claude_parse_fallback:
  "loads (json_text raw) = None \<Longrightarrow> claude_parse loads repr raw = Inr (take 2000 raw, JFloat 0)"
  by (simp add: claude_parse_def)

lemma hello_scenario:
  "claude_parse two_texts_loads repr (py_strip hello_stdout) = Inr (''hello'', JFloat 0)"
  "agent_parse two_texts_loads (py_strip hello_stdout) = Inr (JStr ''No response text'')"
  by (simp_all add: claude_parse_def agent_parse_def json_text_def NL_def DQ_def py_strip_def
        py_space_def hello_stdout_def hello_json_def two_texts_loads_def claude_extract_def
        agent_extract_def dict_get_def py_str_def)

text \<open>
  Claim C4 at a failing input. A subprocess that exits with code 0 and prints \<^verbatim>\<open>42\<close>
  prints valid JSON that is no object: \<^verbatim>\<open>json.loads\<close> succeeds, the field access on
  the number raises an exception the inner \<^verbatim>\<open>except\<close> does not list, the fallback to
  the raw text is skipped, and both \<^verbatim>\<open>invoke_claude\<close> and \<^verbatim>\<open>invoke_agent\<close> return no
  response but an error.
\<close>

theorem scalar_json_output_is_reported_as_failure:
  "loads ''42'' = Some (JInt 42) \<longrightarrow>
     claude_parse loads repr ''42'' = Inl AttributeError
     \<and> map_option response
          (returned (invoke_claude env loads repr fresh (Exited 0 (Some ''42'') err) message sess resume w))
         = Some None
     \<and> map_option error
          (returned (invoke_claude env loads repr fresh (Exited 0 (Some ''42'') err) message sess resume w))
         = Some (Some (Crashed AttributeError))
     \<and> returned (invoke_agent env loads (Exited 0 (Some ''42'') err) target message sess w)
         = Some \<lparr>ag_response = None, ag_error = Some (Crashed TypeError)\<rparr>"
proof
  assume l: "loads ''42'' = Some (JInt 42)"
  have p: "claude_parse loads repr (py_strip ''42'') = Inl AttributeError"
    using l by (simp add: strip_42 claude_parse_scalar)
  obtain h where h: "invoke_claude env loads repr fresh (Exited 0 (Some ''42'') err) message sess resume w
       = claude_run env loads repr (Exited 0 (Some ''42'') err) message resume h
           (snd (claude_handle sess fresh w))"
    using invoke_claude_unfold by blast
  have r: "returned (invoke_claude env loads repr fresh (Exited 0 (Some ''42'') err) message sess resume w)
             = Some \<lparr>response = None, error = Some (Crashed AttributeError),
                      cost_usd = JFloat 0, session_id = h\<rparr>"
    unfolding h returned_def using claude_run_crash [OF p] by simp
  have q: "agent_parse loads (py_strip ''42'') = Inl TypeError"
    using l by (simp add: strip_42 agent_parse_scalar)
  have a: "returned (invoke_agent env loads (Exited 0 (Some ''42'') err) target message sess w)
         = Some \<lparr>ag_response = None, ag_error = Some (Crashed TypeError)\<rparr>"
    unfolding returned_def using invoke_agent_crash [OF q] by simp
  show "claude_parse loads repr ''42'' = Inl AttributeError
     \<and> map_option response
          (returned (invoke_claude env loads repr fresh (Exited 0 (Some ''42'') err) message sess resume w))
         = Some None
     \<and> map_option error
          (returned (invoke_claude env loads repr fresh (Exited 0 (Some ''42'') err) message sess resume w))
         = Some (Some (Crashed AttributeError))
     \<and> returned (invoke_agent env loads (Exited 0 (Some ''42'') err) target message sess w)
         = Some \<lparr>ag_response = None, ag_error = Some (Crashed TypeError)\<rparr>"
    using l r a by (simp add: claude_parse_scalar)
qed

theorem scalar_json_output_is_reported_as_failure_witness:
  "two_texts_loads ''42'' = Some (JInt 42)
   \<and> claude_parse two_texts_loads plain_repr ''42'' = Inl AttributeError
   \<and> map_option error
        (returned (invoke_claude default_env two_texts_loads plain_repr ''u1''
                     (Exited 0 (Some ''42'') (Some [])) ''what is 6 * 7''
                     ''hermes-a-claude-general'' False stored_world))
       = Some (Some (Crashed AttributeError))"
proof -
  have l: "two_texts_loads ''42'' = Some (JInt 42)" by (simp add: two_texts_loads_def)
  note T = scalar_json_output_is_reported_as_failure
      [of two_texts_loads plain_repr default_env "''u1''" "Some []" "''what is 6 * 7''"
          "''hermes-a-claude-general''" False stored_world, THEN mp, OF l]
  show ?thesis using l T [THEN conjunct1] T [THEN conjunct2, THEN conjunct2, THEN conjunct1]
    by (intro conjI)
qed

end
